theory Spec2Isabelle
  imports Main "HOL-Library.Sublist" "HOL-Library.AList"
begin

section \<open>Strings\<close>

text \<open>
  Python strings are modelled as \<open>string\<close>, read as sequences of Latin-1 code points
  (0..255).  On this range \<open>str.lower()\<close> maps A-Z and the accented capitals
  U+00C0..U+00DE (without the multiplication sign U+00D7) to the code point 32 higher and
  leaves every other character alone; the result has the same length.
\<close>

definition lower_char :: "char \<Rightarrow> char" where
  "lower_char c =
     (let n = (of_char c :: nat)
      in if (65 \<le> n \<and> n \<le> 90) \<or> (192 \<le> n \<and> n \<le> 214) \<or> (216 \<le> n \<and> n \<le> 222)
         then char_of (n + 32) else c)"

definition lower :: "string \<Rightarrow> string" where
  "lower s = map lower_char s"

text \<open>Python's \<open>needle in hay\<close> on strings: \<open>needle\<close> occurs as a contiguous run.\<close>

definition str_in :: "string \<Rightarrow> string \<Rightarrow> bool" where
  "str_in needle hay = sublist needle hay"

text \<open>
  \<open>get_attribute\<close> returns a string or \<open>None\<close>.  \<open>truthy\<close> is Python's truth value
  of such a result; \<open>str_of\<close> is \<open>v or ""\<close>.
\<close>

fun truthy :: "string option \<Rightarrow> bool" where
  "truthy None = False"
| "truthy (Some s) = (s \<noteq> [])"

fun str_of :: "string option \<Rightarrow> string" where
  "str_of None = []"
| "str_of (Some s) = s"

text \<open>\<open>d.get(k, default)\<close> on a dictionary kept as an association list in insertion order.\<close>

definition dict_get :: "('k \<times> 'v) list \<Rightarrow> 'k \<Rightarrow> 'v \<Rightarrow> 'v" where
  "dict_get d k dflt = (case map_of d k of None \<Rightarrow> dflt | Some v \<Rightarrow> v)"

section \<open>The browser as an environment\<close>

text \<open>
  The Selenium driver is a black box: every call may return a value or raise, and what
  it does may depend on everything that was asked of it before.  So is the file system,
  of which the program asks one thing, a temporary file to upload.  The state threaded
  through the program is therefore the history of calls made so far, and a driver is a
  family of answer functions on histories.  \<open>time.sleep(random.uniform(a, b))\<close> is the
  call \<open>Sleep\<close>: it returns nothing, but the page may answer differently afterwards.
  Logging is left out: it neither raises nor influences a result.
\<close>

datatype exn = NoSuchElementException | TimeoutException | WebDriverException | KeyError | OSError

datatype locator = TAG_NAME | CSS_SELECTOR

datatype element = Element nat

datatype call =
    Get_current_url
  | Get_page_source
  | Find_elements locator string
  | Find_element locator string
  | Is_displayed element
  | Is_enabled element
  | Get_attribute element string
  | Clear element
  | Send_keys element string
  | Click element
  | New_Select element
  | Select_options element
  | Get_text element
  | Select_by_visible_text element string
  | Select_by_index element nat
  | Wait_presence locator string
  | Write_temp_resume
  | Sleep

type_synonym history = "call list"

record driver =
  env_current_url :: "history \<Rightarrow> exn + string"
  env_page_source :: "history \<Rightarrow> exn + string"
  env_find_elements :: "history \<Rightarrow> locator \<Rightarrow> string \<Rightarrow> exn + element list"
  env_find_element :: "history \<Rightarrow> locator \<Rightarrow> string \<Rightarrow> exn + element"
  env_is_displayed :: "history \<Rightarrow> element \<Rightarrow> exn + bool"
  env_is_enabled :: "history \<Rightarrow> element \<Rightarrow> exn + bool"
  env_get_attribute :: "history \<Rightarrow> element \<Rightarrow> string \<Rightarrow> exn + string option"
  env_clear :: "history \<Rightarrow> element \<Rightarrow> exn + unit"
  env_send_keys :: "history \<Rightarrow> element \<Rightarrow> string \<Rightarrow> exn + unit"
  env_click :: "history \<Rightarrow> element \<Rightarrow> exn + unit"
  env_new_Select :: "history \<Rightarrow> element \<Rightarrow> exn + unit"
  env_options :: "history \<Rightarrow> element \<Rightarrow> exn + element list"
  env_text :: "history \<Rightarrow> element \<Rightarrow> exn + string"
  env_select_by_visible_text :: "history \<Rightarrow> element \<Rightarrow> string \<Rightarrow> exn + unit"
  env_select_by_index :: "history \<Rightarrow> element \<Rightarrow> nat \<Rightarrow> exn + unit"
  env_wait_until_present :: "history \<Rightarrow> locator \<Rightarrow> string \<Rightarrow> exn + element"
  env_write_temp_resume :: "history \<Rightarrow> exn + string"

text \<open>
  A computation takes the history, returns a value or the exception it raised, and the
  extended history.
\<close>

type_synonym 'a prog = "history \<Rightarrow> (exn + 'a) \<times> history"

definition returnE :: "'a \<Rightarrow> 'a prog" where
  "returnE x = (\<lambda>h. (Inr x, h))"

definition raiseE :: "exn \<Rightarrow> 'a prog" where
  "raiseE e = (\<lambda>h. (Inl e, h))"

definition bindE :: "'a prog \<Rightarrow> ('a \<Rightarrow> 'b prog) \<Rightarrow> 'b prog" where
  "bindE m f = (\<lambda>h. case m h of (Inl e, h') \<Rightarrow> (Inl e, h') | (Inr x, h') \<Rightarrow> f x h')"

text \<open>\<open>try: m  except Exception as e: handler e\<close>.\<close>

definition try_except :: "'a prog \<Rightarrow> (exn \<Rightarrow> 'a prog) \<Rightarrow> 'a prog" where
  "try_except m handler = (\<lambda>h. case m h of (Inl e, h') \<Rightarrow> handler e h' | (Inr x, h') \<Rightarrow> (Inr x, h'))"

text \<open>\<open>try: m  except NoSuchElementException: handler\<close>: any other exception passes.\<close>

definition try_except_NoSuchElement :: "'a prog \<Rightarrow> 'a prog \<Rightarrow> 'a prog" where
  "try_except_NoSuchElement m handler =
     (\<lambda>h. case m h of
             (Inl NoSuchElementException, h') \<Rightarrow> handler h'
           | (Inl e, h') \<Rightarrow> (Inl e, h')
           | (Inr x, h') \<Rightarrow> (Inr x, h'))"

definition env_call :: "call \<Rightarrow> (history \<Rightarrow> exn + 'a) \<Rightarrow> 'a prog" where
  "env_call c answer = (\<lambda>h. (answer h, h @ [c]))"

definition current_url :: "driver \<Rightarrow> string prog" where
  "current_url d = env_call Get_current_url (env_current_url d)"

definition page_source :: "driver \<Rightarrow> string prog" where
  "page_source d = env_call Get_page_source (env_page_source d)"

definition find_elements :: "driver \<Rightarrow> locator \<Rightarrow> string \<Rightarrow> element list prog" where
  "find_elements d by sel = env_call (Find_elements by sel) (\<lambda>h. env_find_elements d h by sel)"

definition find_element :: "driver \<Rightarrow> locator \<Rightarrow> string \<Rightarrow> element prog" where
  "find_element d by sel = env_call (Find_element by sel) (\<lambda>h. env_find_element d h by sel)"

definition is_displayed :: "driver \<Rightarrow> element \<Rightarrow> bool prog" where
  "is_displayed d el = env_call (Is_displayed el) (\<lambda>h. env_is_displayed d h el)"

definition is_enabled :: "driver \<Rightarrow> element \<Rightarrow> bool prog" where
  "is_enabled d el = env_call (Is_enabled el) (\<lambda>h. env_is_enabled d h el)"

definition get_attribute :: "driver \<Rightarrow> element \<Rightarrow> string \<Rightarrow> string option prog" where
  "get_attribute d el a = env_call (Get_attribute el a) (\<lambda>h. env_get_attribute d h el a)"

definition clear :: "driver \<Rightarrow> element \<Rightarrow> unit prog" where
  "clear d el = env_call (Clear el) (\<lambda>h. env_clear d h el)"

definition send_keys :: "driver \<Rightarrow> element \<Rightarrow> string \<Rightarrow> unit prog" where
  "send_keys d el s = env_call (Send_keys el s) (\<lambda>h. env_send_keys d h el s)"

definition click :: "driver \<Rightarrow> element \<Rightarrow> unit prog" where
  "click d el = env_call (Click el) (\<lambda>h. env_click d h el)"

definition new_Select :: "driver \<Rightarrow> element \<Rightarrow> unit prog" where
  "new_Select d el = env_call (New_Select el) (\<lambda>h. env_new_Select d h el)"

definition options :: "driver \<Rightarrow> element \<Rightarrow> element list prog" where
  "options d el = env_call (Select_options el) (\<lambda>h. env_options d h el)"

definition get_text :: "driver \<Rightarrow> element \<Rightarrow> string prog" where
  "get_text d el = env_call (Get_text el) (\<lambda>h. env_text d h el)"

definition select_by_visible_text :: "driver \<Rightarrow> element \<Rightarrow> string \<Rightarrow> unit prog" where
  "select_by_visible_text d el s =
     env_call (Select_by_visible_text el s) (\<lambda>h. env_select_by_visible_text d h el s)"

definition select_by_index :: "driver \<Rightarrow> element \<Rightarrow> nat \<Rightarrow> unit prog" where
  "select_by_index d el i = env_call (Select_by_index el i) (\<lambda>h. env_select_by_index d h el i)"

definition sleep :: "unit prog" where
  "sleep = (\<lambda>h. (Inr (), h @ [Sleep]))"

section \<open>external\_form\_mapper.py: class ExternalFormMapper\<close>

subsection \<open>load\_form\_patterns\<close>

type_synonym selectors = "(string \<times> string list) list"

definition vendor_selectors :: selectors where
  "vendor_selectors =
     [(''name_fields'', [''input[name=\"name\"]'', ''input[name=\"full_name\"]'']),
      (''email_fields'', [''input[name=\"email\"]'', ''input[type=\"email\"]'']),
      (''phone_fields'', [''input[name=\"phone\"]'', ''input[type=\"tel\"]'']),
      (''resume_upload'', [''input[type=\"file\"]'', ''input[accept*=\".pdf\"]'']),
      (''submit_button'', [''button[type=\"submit\"]'', ''input[type=\"submit\"]''])]"

definition workday_selectors :: selectors where
  "workday_selectors =
     [(''name_fields'', [''input[name*=\"name\"]'', ''input[id*=\"name\"]'']),
      (''email_fields'', [''input[type=\"email\"]'', ''input[name*=\"email\"]'']),
      (''phone_fields'', [''input[type=\"tel\"]'', ''input[name*=\"phone\"]'']),
      (''resume_upload'', [''input[type=\"file\"]'', ''input[accept*=\".pdf\"]'']),
      (''submit_button'', [''button[type=\"submit\"]'', ''input[type=\"submit\"]''])]"

definition generic_selectors :: selectors where
  "generic_selectors =
     [(''name_fields'',
         [''input[name*=\"name\"]'', ''input[id*=\"name\"]'', ''input[placeholder*=\"name\"]'']),
      (''email_fields'',
         [''input[type=\"email\"]'', ''input[name*=\"email\"]'', ''input[placeholder*=\"email\"]'']),
      (''phone_fields'',
         [''input[type=\"tel\"]'', ''input[name*=\"phone\"]'', ''input[placeholder*=\"phone\"]'']),
      (''resume_upload'',
         [''input[type=\"file\"]'', ''input[accept*=\".pdf\"]'', ''input[accept*=\".doc\"]'']),
      (''submit_button'',
         [''button[type=\"submit\"]'', ''input[type=\"submit\"]'', ''button:contains(\"Submit\")''])]"

text \<open>The table: vendor tag, display name, selector lists.\<close>

definition load_form_patterns :: "(string \<times> string \<times> selectors) list" where
  "load_form_patterns =
     [(''workday'', ''Workday'', workday_selectors),
      (''lever'', ''Lever'', vendor_selectors),
      (''greenhouse'', ''Greenhouse'', vendor_selectors),
      (''bamboo'', ''BambooHR'', vendor_selectors),
      (''generic'', ''Generic Form'', generic_selectors)]"


subsection \<open>detect\_application\_system, detect\_form\_patterns\<close>

definition form_indicators :: "string list" where
  "form_indicators =
     [''form'', ''application'', ''apply'', ''submit'', ''upload'', ''resume'', ''cover letter'']"

definition detect_form_patterns :: "driver \<Rightarrow> bool prog" where
  "detect_form_patterns d =
     try_except
       (bindE (page_source d) (\<lambda>src.
          let page_text = lower src;
              form_count = length (filter (\<lambda>indicator. str_in indicator page_text) form_indicators)
          in bindE (find_elements d TAG_NAME ''form'') (\<lambda>forms.
             bindE (find_elements d TAG_NAME ''input'') (\<lambda>inputs.
             returnE (form_count \<ge> 3 \<or> length forms > 0 \<or> length inputs > 5)))))
       (\<lambda>e. returnE False)"

definition detect_application_system :: "driver \<Rightarrow> string prog" where
  "detect_application_system d =
     try_except
       (bindE (current_url d) (\<lambda>url.
        bindE (page_source d) (\<lambda>src.
          let current_url = lower url; page_source = lower src
          in if str_in ''workday'' current_url then returnE ''workday''
             else if str_in ''lever'' current_url then returnE ''lever''
             else if str_in ''greenhouse'' current_url then returnE ''greenhouse''
             else if str_in ''bamboo'' current_url then returnE ''bamboo''
             else if str_in ''workday'' page_source then returnE ''workday''
             else if str_in ''lever'' page_source then returnE ''lever''
             else if str_in ''greenhouse'' page_source then returnE ''greenhouse''
             else if str_in ''bamboo'' page_source then returnE ''bamboo''
             else bindE (detect_form_patterns d) (\<lambda>looks_like_form.
                    if looks_like_form then returnE ''generic'' else returnE ''unknown''))))
       (\<lambda>e. returnE ''unknown'')"

subsection \<open>map\_form\_fields, find\_fields\_by\_selectors\<close>

text \<open>
  The inner loop of \<open>find_fields_by_selectors\<close> appends to \<open>fields\<close> (here \<open>flds\<close>) in place, so an
  exception in the middle of it keeps what was appended: the loop returns the list as it
  stands together with the exception, if one was raised.
\<close>

fun append_interactable ::
  "driver \<Rightarrow> element list \<Rightarrow> element list \<Rightarrow> history \<Rightarrow> (exn option \<times> element list) \<times> history" where
  "append_interactable d [] flds h = ((None, flds), h)"
| "append_interactable d (el # els) flds h =
     (case is_displayed d el h of
        (Inl e, h1) \<Rightarrow> ((Some e, flds), h1)
      | (Inr False, h1) \<Rightarrow> append_interactable d els flds h1
      | (Inr True, h1) \<Rightarrow>
          (case is_enabled d el h1 of
             (Inl e, h2) \<Rightarrow> ((Some e, flds), h2)
           | (Inr False, h2) \<Rightarrow> append_interactable d els flds h2
           | (Inr True, h2) \<Rightarrow> append_interactable d els (flds @ [el]) h2))"

text \<open>The outer loop; its \<open>except\<close> clause logs and goes on to the next selector.\<close>

fun find_fields_loop :: "driver \<Rightarrow> string list \<Rightarrow> element list \<Rightarrow> element list prog" where
  "find_fields_loop d [] flds h = (Inr flds, h)"
| "find_fields_loop d (selector # rest) flds h =
     (case find_elements d CSS_SELECTOR selector h of
        (Inl e, h1) \<Rightarrow> find_fields_loop d rest flds h1
      | (Inr elements, h1) \<Rightarrow>
          (case append_interactable d elements flds h1 of
             ((_, flds'), h2) \<Rightarrow> find_fields_loop d rest flds' h2))"

definition find_fields_by_selectors :: "driver \<Rightarrow> string list \<Rightarrow> element list prog" where
  "find_fields_by_selectors d selectors = find_fields_loop d selectors []"

type_synonym mapped_fields = "(string \<times> element list) list"

text \<open>\<open>for field_type, selectors in patterns['selectors'].items(): mapped_fields[field_type] = ...\<close>\<close>

fun map_each_field_type :: "driver \<Rightarrow> selectors \<Rightarrow> mapped_fields \<Rightarrow> mapped_fields prog" where
  "map_each_field_type d [] mapped = returnE mapped"
| "map_each_field_type d ((field_type, selectors) # rest) mapped =
     bindE (find_fields_by_selectors d selectors) (\<lambda>found.
       map_each_field_type d rest (AList.update field_type found mapped))"

definition map_form_fields :: "driver \<Rightarrow> string \<Rightarrow> mapped_fields prog" where
  "map_form_fields d system_type =
     try_except
       (let system_type = (if system_type \<notin> set (map fst load_form_patterns)
                           then ''generic'' else system_type)
        in case map_of load_form_patterns system_type of
             None \<Rightarrow> raiseE KeyError
           | Some (name, selectors) \<Rightarrow> map_each_field_type d selectors [])
       (\<lambda>e. returnE [])"

subsection \<open>Typing and the canonical fields\<close>

fun human_type :: "driver \<Rightarrow> element \<Rightarrow> string \<Rightarrow> unit prog" where
  "human_type d el [] = returnE ()"
| "human_type d el (c # cs) =
     bindE (send_keys d el [c]) (\<lambda>_. bindE sleep (\<lambda>_. human_type d el cs))"

text \<open>
  The profile is a dictionary of strings; \<open>str\<close> of a string is the string.  The
  \<open>try\<close> of \<open>get_field_value\<close> protects dictionary reads, which do not raise.
\<close>

type_synonym profile = "(string \<times> string) list"

definition get_field_value :: "string \<Rightarrow> profile \<Rightarrow> string option" where
  "get_field_value field_type profile_data =
     (if field_type = ''name'' then Some (dict_get profile_data ''name'' ''John Doe'')
      else if field_type = ''email'' then Some (dict_get profile_data ''email'' ''john.doe@example.com'')
      else if field_type = ''phone'' then Some (dict_get profile_data ''phone'' ''+65 9123 4567'')
      else if field_type = ''experience'' then Some (dict_get profile_data ''years_experience'' ''5'')
      else if field_type = ''location'' then Some (dict_get profile_data ''location'' ''Singapore'')
      else None)"

definition fill_field_appropriately :: "driver \<Rightarrow> element \<Rightarrow> string \<Rightarrow> profile \<Rightarrow> bool prog" where
  "fill_field_appropriately d field field_type profile_data =
     try_except
       (let v = get_field_value field_type profile_data
        in if truthy v
           then bindE (clear d field) (\<lambda>_.
                bindE sleep (\<lambda>_.
                bindE (human_type d field (str_of v)) (\<lambda>_.
                bindE sleep (\<lambda>_. returnE True))))
           else returnE False)
       (\<lambda>e. returnE False)"

text \<open>\<open>for field in fields: if not field.get_attribute("value"): fill(...); break\<close>\<close>

fun fill_first_empty :: "driver \<Rightarrow> element list \<Rightarrow> string \<Rightarrow> profile \<Rightarrow> unit prog" where
  "fill_first_empty d [] field_type profile_data = returnE ()"
| "fill_first_empty d (field # rest) field_type profile_data =
     bindE (get_attribute d field ''value'') (\<lambda>v.
       if \<not> truthy v
       then bindE (fill_field_appropriately d field field_type profile_data) (\<lambda>_. returnE ())
       else fill_first_empty d rest field_type profile_data)"

definition fill_basic_fields :: "driver \<Rightarrow> mapped_fields \<Rightarrow> profile \<Rightarrow> unit prog" where
  "fill_basic_fields d mapped profile_data =
     try_except
       (bindE (fill_first_empty d (dict_get mapped ''name_fields'' []) ''name'' profile_data) (\<lambda>_.
        bindE (fill_first_empty d (dict_get mapped ''email_fields'' []) ''email'' profile_data) (\<lambda>_.
        fill_first_empty d (dict_get mapped ''phone_fields'' []) ''phone'' profile_data)))
       (\<lambda>e. returnE ())"

subsection \<open>handle\_resume\_upload\<close>

definition handle_resume_upload :: "driver \<Rightarrow> element list \<Rightarrow> string \<Rightarrow> bool prog" where
  "handle_resume_upload d resume_fields resume_file =
     try_except
       (case resume_fields of
          [] \<Rightarrow> returnE False
        | resume_field # _ \<Rightarrow>
            bindE (send_keys d resume_field resume_file) (\<lambda>_.
            bindE sleep (\<lambda>_. returnE True)))
       (\<lambda>e. returnE False)"


subsection \<open>should\_fill\_additional\_field\<close>

definition relevant_types :: "string list" where
  "relevant_types = [''text'', ''email'', ''tel'', ''number'', ''url'']"

definition relevant_names :: "string list" where
  "relevant_names =
     [''experience'', ''years'', ''skills'', ''education'', ''location'', ''salary'', ''availability'']"

text \<open>\<open>field.get_attribute("name") or field.get_attribute("id") or ""\<close>\<close>

definition name_or_id :: "driver \<Rightarrow> element \<Rightarrow> string prog" where
  "name_or_id d field =
     bindE (get_attribute d field ''name'') (\<lambda>n.
       if truthy n then returnE (str_of n)
       else bindE (get_attribute d field ''id'') (\<lambda>i. returnE (str_of i)))"

text \<open>\<open>field.get_attribute("placeholder") or ""\<close>\<close>

definition placeholder_or_empty :: "driver \<Rightarrow> element \<Rightarrow> string prog" where
  "placeholder_or_empty d field =
     bindE (get_attribute d field ''placeholder'') (\<lambda>p. returnE (str_of p))"

definition should_fill_additional_field :: "driver \<Rightarrow> element \<Rightarrow> bool prog" where
  "should_fill_additional_field d field =
     try_except
       (bindE (is_displayed d field) (\<lambda>displayed.
        bindE (if \<not> displayed then returnE True
               else bindE (is_enabled d field) (\<lambda>enabled. returnE (\<not> enabled))) (\<lambda>hidden_or_disabled.
        if hidden_or_disabled then returnE False
        else
        bindE (get_attribute d field ''value'') (\<lambda>v.
        if truthy v then returnE False
        else
        bindE (get_attribute d field ''required'') (\<lambda>r.
        bindE (if truthy r then returnE r else get_attribute d field ''aria-required'') (\<lambda>required.
        if truthy required then returnE True
        else
        bindE (get_attribute d field ''type'') (\<lambda>field_type.
        bindE (name_or_id d field) (\<lambda>field_name.
        bindE (placeholder_or_empty d field) (\<lambda>field_placeholder.
        if (case field_type of None \<Rightarrow> False | Some t \<Rightarrow> t \<in> set relevant_types) then returnE True
        else if list_ex (\<lambda>name. str_in name (lower field_name)) relevant_names then returnE True
        else if list_ex (\<lambda>name. str_in name (lower field_placeholder)) relevant_names then returnE True
        else returnE False)))))))))
       (\<lambda>e. returnE False)"

subsection \<open>get\_additional\_field\_value, fill\_additional\_field\<close>

text \<open>
  The arguments are strings (the type attribute possibly \<open>None\<close>), so nothing in the body
  raises and the \<open>except\<close> clause is never taken.
\<close>

definition get_additional_field_value :: "string option \<Rightarrow> string \<Rightarrow> string \<Rightarrow> string option" where
  "get_additional_field_value field_type field_name field_placeholder =
     (let field_text = lower (field_name @ '' '' @ field_placeholder)
      in if list_ex (\<lambda>word. str_in word field_text) [''experience'', ''years'']
           then Some ''5''
         else if list_ex (\<lambda>word. str_in word field_text) [''skills'', ''technologies'']
           then Some ''Python, SQL, Data Engineering, AWS, Apache Spark''
         else if list_ex (\<lambda>word. str_in word field_text) [''education'', ''degree'']
           then Some ''Bachelor's Degree in Computer Science''
         else if list_ex (\<lambda>word. str_in word field_text) [''location'', ''city'']
           then Some ''Singapore''
         else if list_ex (\<lambda>word. str_in word field_text) [''salary'', ''compensation'']
           then Some ''Negotiable''
         else if list_ex (\<lambda>word. str_in word field_text) [''availability'', ''start date'']
           then Some ''Immediate''
         else if list_ex (\<lambda>word. str_in word field_text) [''portfolio'', ''github'', ''website'']
           then Some ''https://github.com/username''
         else if field_type = Some ''text'' then Some ''See resume for details''
         else if field_type = Some ''number'' then Some ''5''
         else if field_type = Some ''email'' then Some ''john.doe@example.com''
         else None)"

definition fill_additional_field :: "driver \<Rightarrow> element \<Rightarrow> bool prog" where
  "fill_additional_field d field =
     try_except
       (bindE (get_attribute d field ''type'') (\<lambda>field_type.
        bindE (name_or_id d field) (\<lambda>field_name.
        bindE (placeholder_or_empty d field) (\<lambda>field_placeholder.
          let v = get_additional_field_value field_type field_name field_placeholder
          in if truthy v
             then bindE (clear d field) (\<lambda>_.
                  bindE sleep (\<lambda>_.
                  bindE (human_type d field (str_of v)) (\<lambda>_.
                  bindE sleep (\<lambda>_. returnE True))))
             else returnE False))))
       (\<lambda>e. returnE False)"

subsection \<open>fill\_select\_field\<close>

definition select_keywords :: "string list" where
  "select_keywords = [''yes'', ''available'', ''immediate'', ''bachelor'', ''5+'']"

text \<open>
  The \<open>for option in options\<close> loop; \<open>True\<close> means it returned from the function with
  \<open>True\<close>, \<open>False\<close> that it ran to its end.  \<open>option.text\<close> is read once for the test
  and once more for the selection.
\<close>

fun select_first_match :: "driver \<Rightarrow> element \<Rightarrow> element list \<Rightarrow> bool prog" where
  "select_first_match d field [] = returnE False"
| "select_first_match d field (opt # rest) =
     bindE (get_text d opt) (\<lambda>t.
       let option_text = lower t
       in if list_ex (\<lambda>word. str_in word option_text) select_keywords
          then bindE (get_text d opt) (\<lambda>t'.
               bindE (select_by_visible_text d field t') (\<lambda>_.
               bindE sleep (\<lambda>_. returnE True)))
          else select_first_match d field rest)"

definition fill_select_field :: "driver \<Rightarrow> element \<Rightarrow> bool prog" where
  "fill_select_field d field =
     try_except
       (bindE (new_Select d field) (\<lambda>_.
        bindE (options d field) (\<lambda>opts.
          if length opts > 1
          then bindE (select_first_match d field opts) (\<lambda>selected.
                 if selected then returnE True
                 else if length opts > 1
                 then bindE (select_by_index d field 1) (\<lambda>_.
                      bindE sleep (\<lambda>_. returnE True))
                 else returnE False)
          else returnE False)))
       (\<lambda>e. returnE False)"

subsection \<open>fill\_additional\_questions\<close>

text \<open>
  \<open>for field in fields: if should_fill(field): if fill(field): questions_filled += 1\<close>,
  with \<open>fill\<close> the filler of the element kind.
\<close>

fun fill_each :: "driver \<Rightarrow> (driver \<Rightarrow> element \<Rightarrow> bool prog) \<Rightarrow> element list \<Rightarrow> int \<Rightarrow> int prog" where
  "fill_each d fill [] questions_filled = returnE questions_filled"
| "fill_each d fill (field # rest) questions_filled =
     bindE (should_fill_additional_field d field) (\<lambda>wanted.
       if wanted
       then bindE (fill d field) (\<lambda>filled.
              fill_each d fill rest (if filled then questions_filled + 1 else questions_filled))
       else fill_each d fill rest questions_filled)"

definition fill_additional_questions :: "driver \<Rightarrow> mapped_fields \<Rightarrow> int prog" where
  "fill_additional_questions d mapped =
     try_except
       (bindE (find_elements d TAG_NAME ''input'') (\<lambda>all_inputs.
        bindE (find_elements d TAG_NAME ''textarea'') (\<lambda>all_textareas.
        bindE (find_elements d TAG_NAME ''select'') (\<lambda>all_selects.
        bindE (fill_each d fill_additional_field all_inputs 0) (\<lambda>q1.
        bindE (fill_each d fill_additional_field all_textareas q1) (\<lambda>q2.
        fill_each d fill_select_field all_selects q2))))))
       (\<lambda>e. returnE 0)"

subsection \<open>add\_cover\_letter\<close>

definition cover_letter_selectors :: "string list" where
  "cover_letter_selectors =
     [''textarea[name*=\"cover\"]'', ''textarea[name*=\"letter\"]'',
      ''textarea[placeholder*=\"cover\"]'', ''textarea[placeholder*=\"letter\"]'',
      ''textarea[name*=\"message\"]'', ''textarea[name*=\"additional\"]'']"

text \<open>
  The loop over the selectors.  The body of its \<open>try\<close> yields \<open>True\<close> when it returned
  from the function and \<open>False\<close> when it fell through to the next selector.
\<close>

fun try_cover_selectors :: "driver \<Rightarrow> string list \<Rightarrow> string \<Rightarrow> bool prog" where
  "try_cover_selectors d [] cover_letter = returnE False"
| "try_cover_selectors d (selector # rest) cover_letter =
     bindE
       (try_except_NoSuchElement
          (bindE (find_element d CSS_SELECTOR selector) (\<lambda>field.
           bindE (is_displayed d field) (\<lambda>displayed.
           bindE (if displayed then is_enabled d field else returnE False) (\<lambda>usable.
             if usable
             then bindE (clear d field) (\<lambda>_.
                  bindE sleep (\<lambda>_.
                  bindE (human_type d field cover_letter) (\<lambda>_. returnE True)))
             else returnE False))))
          (returnE False))
       (\<lambda>returned. if returned then returnE True else try_cover_selectors d rest cover_letter)"

definition add_cover_letter :: "driver \<Rightarrow> mapped_fields \<Rightarrow> string \<Rightarrow> bool prog" where
  "add_cover_letter d mapped cover_letter =
     try_except (try_cover_selectors d cover_letter_selectors cover_letter) (\<lambda>e. returnE False)"

subsection \<open>check\_submission\_success, submit\_form\<close>

definition success_indicators :: "string list" where
  "success_indicators =
     [''thank you'', ''application submitted'', ''application received'',
      ''successfully applied'', ''application complete'', ''confirmation'']"

definition error_indicators :: "string list" where
  "error_indicators =
     [''error occurred'', ''application failed'', ''please try again'',
      ''something went wrong'', ''validation error'']"

definition check_submission_success :: "driver \<Rightarrow> bool prog" where
  "check_submission_success d =
     try_except
       (bindE (page_source d) (\<lambda>src.
          let page_text = lower src
          in if list_ex (\<lambda>indicator. str_in indicator page_text) success_indicators
               then returnE True
             else if list_ex (\<lambda>indicator. str_in indicator page_text) error_indicators
               then returnE False
             else returnE True))
       (\<lambda>e. returnE False)"

text \<open>
  The loop over the submit candidates.  The body of its \<open>try\<close> yields \<open>Some b\<close> when it
  returned \<open>b\<close> from the function, \<open>None\<close> when the candidate is not enabled; its
  \<open>except Exception\<close> clause goes on to the next candidate.
\<close>

fun click_first_enabled :: "driver \<Rightarrow> element list \<Rightarrow> bool prog" where
  "click_first_enabled d [] = returnE False"
| "click_first_enabled d (submit_field # rest) =
     bindE
       (try_except
          (bindE (is_enabled d submit_field) (\<lambda>enabled.
             if enabled
             then bindE (click d submit_field) (\<lambda>_.
                  bindE sleep (\<lambda>_.
                  bindE (check_submission_success d) (\<lambda>ok. returnE (Some ok))))
             else returnE None))
          (\<lambda>e. returnE None))
       (\<lambda>returned. case returned of
                      Some ok \<Rightarrow> returnE ok
                    | None \<Rightarrow> click_first_enabled d rest)"

definition submit_form :: "driver \<Rightarrow> element list \<Rightarrow> bool prog" where
  "submit_form d submit_fields =
     try_except
       (if submit_fields = [] then returnE False
        else click_first_enabled d submit_fields)
       (\<lambda>e. returnE False)"

subsection \<open>fill\_application\_form\<close>

definition fill_application_form ::
  "driver \<Rightarrow> mapped_fields \<Rightarrow> profile \<Rightarrow> string \<Rightarrow> string \<Rightarrow> bool prog" where
  "fill_application_form d mapped profile_data resume_file cover_letter =
     try_except
       (bindE (fill_basic_fields d mapped profile_data) (\<lambda>_.
        bindE (handle_resume_upload d (dict_get mapped ''resume_upload'' []) resume_file) (\<lambda>resume_uploaded.
        bindE (fill_additional_questions d mapped) (\<lambda>questions_filled.
        bindE (add_cover_letter d mapped cover_letter) (\<lambda>cover_letter_added.
          if resume_uploaded
          then submit_form d (dict_get mapped ''submit_button'' [])
          else returnE False)))))
       (\<lambda>e. returnE False)"

section \<open>linkedin\_application\_handler.py: class LinkedInApplicationHandler\<close>

text \<open>
  The Easy Apply path.  Methods whose names \<open>ExternalFormMapper\<close> also uses carry the
  suffix \<open>_linkedin\<close>; \<open>human_type\<close> is the same method in both classes.
\<close>

text \<open>
  \<open>WebDriverWait(driver, 10).until(EC.presence_of_element_located((by, sel)))\<close>: the
  element, or \<open>TimeoutException\<close>.
\<close>

definition wait_until_present :: "driver \<Rightarrow> locator \<Rightarrow> string \<Rightarrow> element prog" where
  "wait_until_present d by sel =
     env_call (Wait_presence by sel) (\<lambda>h. env_wait_until_present d h by sel)"

subsection \<open>create\_temp\_resume\_file, handle\_resume\_upload\<close>

text \<open>
  Creating the directory and writing the file is one call to the file system; it returns
  the path of the file.
\<close>

definition write_temp_resume :: "driver \<Rightarrow> string prog" where
  "write_temp_resume d = env_call Write_temp_resume (env_write_temp_resume d)"

definition create_temp_resume_file :: "driver \<Rightarrow> string option prog" where
  "create_temp_resume_file d =
     try_except
       (bindE (write_temp_resume d) (\<lambda>resume_file. returnE (Some resume_file)))
       (\<lambda>e. returnE None)"

definition file_input_selectors :: "string list" where
  "file_input_selectors =
     [''input[type='file']'', ''input[accept*='.pdf']'', ''input[accept*='.doc']'',
      ''input[accept*='.docx']'', ''[data-test-id='resume-upload-input']'']"

text \<open>
  The search loop: \<open>break\<close> at the first selector that finds an element,
  \<open>continue\<close> on \<open>NoSuchElementException\<close>; \<open>None\<close> when no selector finds one.
\<close>

fun find_file_input :: "driver \<Rightarrow> string list \<Rightarrow> element option prog" where
  "find_file_input d [] = returnE None"
| "find_file_input d (selector # rest) =
     try_except_NoSuchElement
       (bindE (find_element d CSS_SELECTOR selector) (\<lambda>file_input. returnE (Some file_input)))
       (find_file_input d rest)"

definition handle_resume_upload_linkedin :: "driver \<Rightarrow> bool prog" where
  "handle_resume_upload_linkedin d =
     try_except
       (bindE (find_file_input d file_input_selectors) (\<lambda>found.
          case found of
            None \<Rightarrow> returnE False
          | Some file_input \<Rightarrow>
              bindE (create_temp_resume_file d) (\<lambda>resume_file.
                if \<not> truthy resume_file then returnE False
                else bindE (send_keys d file_input (str_of resume_file)) (\<lambda>_.
                     bindE sleep (\<lambda>_. returnE True)))))
       (\<lambda>e. returnE False)"

subsection \<open>should\_fill\_field, get\_field\_value, fill\_field\_appropriately\<close>

definition relevant_names_linkedin :: "string list" where
  "relevant_names_linkedin = [''name'', ''email'', ''phone'', ''experience'', ''years'', ''skills'']"

definition should_fill_field :: "driver \<Rightarrow> element \<Rightarrow> bool prog" where
  "should_fill_field d field =
     try_except
       (bindE (is_displayed d field) (\<lambda>displayed.
        bindE (if \<not> displayed then returnE True
               else bindE (is_enabled d field) (\<lambda>enabled. returnE (\<not> enabled))) (\<lambda>hidden_or_disabled.
        if hidden_or_disabled then returnE False
        else
        bindE (get_attribute d field ''value'') (\<lambda>v.
        if truthy v then returnE False
        else
        bindE (get_attribute d field ''required'') (\<lambda>r.
        bindE (if truthy r then returnE r else get_attribute d field ''aria-required'') (\<lambda>required.
        if truthy required then returnE True
        else
        bindE (get_attribute d field ''type'') (\<lambda>field_type.
        bindE (name_or_id d field) (\<lambda>field_name.
        if (case field_type of None \<Rightarrow> False | Some t \<Rightarrow> t \<in> set relevant_types) then returnE True
        else if list_ex (\<lambda>name. str_in name (lower field_name)) relevant_names_linkedin
          then returnE True
        else returnE False))))))))
       (\<lambda>e. returnE False)"

definition get_field_value_linkedin :: "string option \<Rightarrow> string \<Rightarrow> string option" where
  "get_field_value_linkedin field_type field_name =
     (if str_in ''name'' field_name then Some ''John Doe''
      else if str_in ''email'' field_name then Some ''john.doe@example.com''
      else if str_in ''phone'' field_name \<or> str_in ''tel'' field_name then Some ''+65 9123 4567''
      else if str_in ''experience'' field_name \<or> str_in ''years'' field_name then Some ''5''
      else if str_in ''skills'' field_name then Some ''Python, SQL, Data Engineering''
      else if str_in ''education'' field_name then Some ''Bachelor's Degree''
      else if str_in ''location'' field_name then Some ''Singapore''
      else if field_type = Some ''text'' then Some ''See resume for details''
      else if field_type = Some ''number'' then Some ''5''
      else if field_type = Some ''email'' then Some ''john.doe@example.com''
      else None)"

definition fill_field_appropriately_linkedin :: "driver \<Rightarrow> element \<Rightarrow> bool prog" where
  "fill_field_appropriately_linkedin d field =
     try_except
       (bindE (get_attribute d field ''type'') (\<lambda>field_type.
        bindE (name_or_id d field) (\<lambda>field_name.
          let field_name_lower = lower field_name;
              v = get_field_value_linkedin field_type field_name_lower
          in if truthy v
             then bindE (clear d field) (\<lambda>_.
                  bindE sleep (\<lambda>_.
                  bindE (human_type d field (str_of v)) (\<lambda>_. returnE True)))
             else returnE False)))
       (\<lambda>e. returnE False)"

subsection \<open>fill\_easy\_apply\_questions\<close>

definition question_selectors :: "string list" where
  "question_selectors =
     [''input[type='text']'', ''textarea'', ''select'', ''input[type='number']'',
      ''input[type='email']'', ''input[type='tel']'']"

text \<open>
  The loop over the fields one selector found.  The counter is a local variable updated
  in place, so it keeps its value when the loop is left by an exception.
\<close>

fun fill_question_fields ::
  "driver \<Rightarrow> element list \<Rightarrow> int \<Rightarrow> history \<Rightarrow> (exn option \<times> int) \<times> history" where
  "fill_question_fields d [] questions_filled h = ((None, questions_filled), h)"
| "fill_question_fields d (field # rest) questions_filled h =
     (case should_fill_field d field h of
        (Inl e, h1) \<Rightarrow> ((Some e, questions_filled), h1)
      | (Inr False, h1) \<Rightarrow> fill_question_fields d rest questions_filled h1
      | (Inr True, h1) \<Rightarrow>
          (case fill_field_appropriately_linkedin d field h1 of
             (Inl e, h2) \<Rightarrow> ((Some e, questions_filled), h2)
           | (Inr False, h2) \<Rightarrow> fill_question_fields d rest questions_filled h2
           | (Inr True, h2) \<Rightarrow>
               fill_question_fields d rest (questions_filled + 1) (snd (sleep h2))))"

text \<open>The loop over the selectors; its \<open>except\<close> clause goes on to the next one.\<close>

fun fill_questions_loop :: "driver \<Rightarrow> string list \<Rightarrow> int \<Rightarrow> int prog" where
  "fill_questions_loop d [] questions_filled h = (Inr questions_filled, h)"
| "fill_questions_loop d (selector # rest) questions_filled h =
     (case find_elements d CSS_SELECTOR selector h of
        (Inl e, h1) \<Rightarrow> fill_questions_loop d rest questions_filled h1
      | (Inr found, h1) \<Rightarrow>
          (case fill_question_fields d found questions_filled h1 of
             ((_, questions_filled'), h2) \<Rightarrow> fill_questions_loop d rest questions_filled' h2))"

definition fill_easy_apply_questions :: "driver \<Rightarrow> bool prog" where
  "fill_easy_apply_questions d =
     try_except
       (bindE (fill_questions_loop d question_selectors 0) (\<lambda>questions_filled.
          returnE (questions_filled > 0)))
       (\<lambda>e. returnE False)"

subsection \<open>add\_cover\_letter\_to\_easy\_apply\<close>

definition cover_letter_selectors_linkedin :: "string list" where
  "cover_letter_selectors_linkedin =
     [''textarea[name*='cover']'', ''textarea[name*='letter']'',
      ''textarea[placeholder*='cover']'', ''textarea[placeholder*='letter']'',
      ''[data-test-id='cover-letter-input']'']"

text \<open>The loop body is that of \<open>add_cover_letter\<close>; only the selectors differ.\<close>

definition add_cover_letter_to_easy_apply :: "driver \<Rightarrow> string \<Rightarrow> bool prog" where
  "add_cover_letter_to_easy_apply d cover_letter =
     try_except (try_cover_selectors d cover_letter_selectors_linkedin cover_letter)
       (\<lambda>e. returnE False)"

subsection \<open>check\_application\_success, submit\_easy\_apply\<close>

definition success_indicators_linkedin :: "string list" where
  "success_indicators_linkedin =
     [''Application submitted'', ''Thank you for your application'', ''Application received'',
      ''Successfully applied'', ''Application complete'']"

definition error_indicators_linkedin :: "string list" where
  "error_indicators_linkedin =
     [''error occurred'', ''application failed'', ''please try again'', ''something went wrong'']"

definition check_application_success :: "driver \<Rightarrow> bool prog" where
  "check_application_success d =
     try_except
       (bindE (page_source d) (\<lambda>src.
          let page_text = lower src
          in if list_ex (\<lambda>indicator. str_in (lower indicator) page_text) success_indicators_linkedin
               then returnE True
             else if list_ex (\<lambda>indicator. str_in (lower indicator) page_text) error_indicators_linkedin
               then returnE False
             else returnE True))
       (\<lambda>e. returnE False)"

definition submit_selectors :: "string list" where
  "submit_selectors =
     [''button[data-control-name='submit_unify']'', ''button[aria-label='Submit application']'',
      ''button[type='submit']'', ''.jobs-easy-apply-content button:last-child'']"

text \<open>
  The loop over the submit selectors.  The body of its \<open>try\<close> yields \<open>Some b\<close> when
  it returned \<open>b\<close> from the function and \<open>None\<close> when the button is not enabled;
  \<open>NoSuchElementException\<close> goes on to the next selector, any other exception leaves
  the loop.
\<close>

fun click_first_found :: "driver \<Rightarrow> string list \<Rightarrow> bool prog" where
  "click_first_found d [] = returnE False"
| "click_first_found d (selector # rest) =
     bindE
       (try_except_NoSuchElement
          (bindE (find_element d CSS_SELECTOR selector) (\<lambda>submit_button.
           bindE (is_enabled d submit_button) (\<lambda>enabled.
             if enabled
             then bindE (click d submit_button) (\<lambda>_.
                  bindE sleep (\<lambda>_.
                  bindE (check_application_success d) (\<lambda>ok. returnE (Some ok))))
             else returnE None)))
          (returnE None))
       (\<lambda>returned. case returned of
                      Some ok \<Rightarrow> returnE ok
                    | None \<Rightarrow> click_first_found d rest)"

definition submit_easy_apply :: "driver \<Rightarrow> bool prog" where
  "submit_easy_apply d =
     try_except (click_first_found d submit_selectors) (\<lambda>e. returnE False)"

subsection \<open>handle\_linkedin\_easy\_apply\<close>

definition handle_linkedin_easy_apply :: "driver \<Rightarrow> string \<Rightarrow> string \<Rightarrow> bool prog" where
  "handle_linkedin_easy_apply d resume_content cover_letter =
     try_except
       (bindE (wait_until_present d CSS_SELECTOR ''.jobs-easy-apply-content'') (\<lambda>_.
        bindE (handle_resume_upload_linkedin d) (\<lambda>resume_uploaded.
        bindE (fill_easy_apply_questions d) (\<lambda>questions_filled.
        bindE (add_cover_letter_to_easy_apply d cover_letter) (\<lambda>cover_letter_added.
          if resume_uploaded
          then submit_easy_apply d
          else returnE False)))))
       (\<lambda>e. returnE False)"

section \<open>Observing the calls made\<close>

text \<open>The selections a history holds: what was chosen in dropdowns, in order.\<close>

fun is_selection :: "call \<Rightarrow> bool" where
  "is_selection (Select_by_visible_text el s) = True"
| "is_selection (Select_by_index el i) = True"
| "is_selection c = False"

definition selections :: "history \<Rightarrow> call list" where
  "selections h = filter is_selection h"

text \<open>
  The clicks a history holds.  In \<open>ExternalFormMapper\<close> only \<open>submit_form\<close> clicks, on the
  Easy Apply path only \<open>submit_easy_apply\<close>.
  A computation is quiet when it never adds a click.
\<close>

fun is_click :: "call \<Rightarrow> bool" where
  "is_click (Click el) = True"
| "is_click c = False"

definition clicks :: "history \<Rightarrow> call list" where
  "clicks h = filter is_click h"

definition quiet :: "'a prog \<Rightarrow> bool" where
  "quiet m = (\<forall>h. clicks (snd (m h)) = clicks h)"

section \<open>Concrete environments\<close>

text \<open>A browser in which every call raises; the pages used below are updates of it.\<close>

definition failing_driver :: driver where
  "failing_driver =
     \<lparr>env_current_url = (\<lambda>h. Inl WebDriverException),
      env_page_source = (\<lambda>h. Inl WebDriverException),
      env_find_elements = (\<lambda>h by sel. Inl WebDriverException),
      env_find_element = (\<lambda>h by sel. Inl NoSuchElementException),
      env_is_displayed = (\<lambda>h el. Inl WebDriverException),
      env_is_enabled = (\<lambda>h el. Inl WebDriverException),
      env_get_attribute = (\<lambda>h el a. Inl WebDriverException),
      env_clear = (\<lambda>h el. Inl WebDriverException),
      env_send_keys = (\<lambda>h el s. Inl WebDriverException),
      env_click = (\<lambda>h el. Inl WebDriverException),
      env_new_Select = (\<lambda>h el. Inl WebDriverException),
      env_options = (\<lambda>h el. Inl WebDriverException),
      env_text = (\<lambda>h el. Inl WebDriverException),
      env_select_by_visible_text = (\<lambda>h el s. Inl WebDriverException),
      env_select_by_index = (\<lambda>h el i. Inl WebDriverException),
      env_wait_until_present = (\<lambda>h by sel. Inl TimeoutException),
      env_write_temp_resume = (\<lambda>h. Inl OSError)\<rparr>"

text \<open>
  A page that does not change: its address, its source, its \<open>form\<close> elements and
  its \<open>input\<close> elements.
\<close>

definition static_page :: "string \<Rightarrow> string \<Rightarrow> element list \<Rightarrow> element list \<Rightarrow> driver" where
  "static_page url src forms inputs =
     failing_driver
       \<lparr>env_current_url := (\<lambda>h. Inr url),
        env_page_source := (\<lambda>h. Inr src),
        env_find_elements := (\<lambda>h by sel.
           Inr (if by = TAG_NAME \<and> sel = ''form'' then forms
                else if by = TAG_NAME \<and> sel = ''input'' then inputs
                else []))\<rparr>"

text \<open>
  A page whose only control is a visible, enabled input found by its placeholder, a
  selector that only the generic signature has.
\<close>

definition placeholder_page :: driver where
  "placeholder_page =
     failing_driver
       \<lparr>env_find_elements := (\<lambda>h by sel.
           Inr (if by = CSS_SELECTOR \<and> sel = ''input[placeholder*=\"name\"]''
                then [Element 1] else [])),
        env_is_displayed := (\<lambda>h el. Inr True),
        env_is_enabled := (\<lambda>h el. Inr True)\<rparr>"

text \<open>A page with one kind of control: its visibility, whether it is enabled, its attributes.\<close>

definition control_page :: "bool \<Rightarrow> bool \<Rightarrow> (string \<times> string) list \<Rightarrow> driver" where
  "control_page visible enabled attrs =
     failing_driver
       \<lparr>env_is_displayed := (\<lambda>h el. Inr visible),
        env_is_enabled := (\<lambda>h el. Inr enabled),
        env_get_attribute := (\<lambda>h el a. Inr (map_of attrs a))\<rparr>"

text \<open>
  A dropdown with the given option labels; its options are the elements 1, 2, ... in
  order, and every selection succeeds.
\<close>

fun label_of :: "string list \<Rightarrow> element \<Rightarrow> string" where
  "label_of labels (Element i) =
     (if 1 \<le> i \<and> i \<le> length labels then labels ! (i - 1) else [])"

definition dropdown_page :: "string list \<Rightarrow> driver" where
  "dropdown_page labels =
     failing_driver
       \<lparr>env_new_Select := (\<lambda>h el. Inr ()),
        env_options := (\<lambda>h el. Inr (map Element [1..<Suc (length labels)])),
        env_text := (\<lambda>h el. Inr (label_of labels el)),
        env_select_by_visible_text := (\<lambda>h el s. Inr ()),
        env_select_by_index := (\<lambda>h el i. Inr ())\<rparr>"

text \<open>
  A page on which every call succeeds: no elements are found by the page-wide searches,
  every control is visible, enabled and empty, and the source is the given text.
\<close>

definition cooperative_page :: "string \<Rightarrow> driver" where
  "cooperative_page src =
     \<lparr>env_current_url = (\<lambda>h. Inr ''https://example.org/apply''),
      env_page_source = (\<lambda>h. Inr src),
      env_find_elements = (\<lambda>h by sel. Inr []),
      env_find_element = (\<lambda>h by sel. Inl NoSuchElementException),
      env_is_displayed = (\<lambda>h el. Inr True),
      env_is_enabled = (\<lambda>h el. Inr True),
      env_get_attribute = (\<lambda>h el a. Inr None),
      env_clear = (\<lambda>h el. Inr ()),
      env_send_keys = (\<lambda>h el s. Inr ()),
      env_click = (\<lambda>h el. Inr ()),
      env_new_Select = (\<lambda>h el. Inr ()),
      env_options = (\<lambda>h el. Inr []),
      env_text = (\<lambda>h el. Inr []),
      env_select_by_visible_text = (\<lambda>h el s. Inr ()),
      env_select_by_index = (\<lambda>h el i. Inr ()),
      env_wait_until_present = (\<lambda>h by sel. Inr (Element 0)),
      env_write_temp_resume = (\<lambda>h. Inr ''/tmp/tmpab12cd/resume.pdf'')\<rparr>"

text \<open>The same page, but the file input, element 2, refuses the upload.\<close>

definition upload_refusing_page :: driver where
  "upload_refusing_page =
     (cooperative_page ''<p>Thank you</p>'')
       \<lparr>env_send_keys := (\<lambda>h el s. if el = Element 2 then Inl WebDriverException else Inr ())\<rparr>"

section \<open>Properties\<close>

lemmas prog_defs = returnE_def raiseE_def bindE_def try_except_def env_call_def

subsection \<open>Value resolution for additional fields\<close>

text \<open>
  C7.  \<open>get_additional_field_value\<close> goes through its keyword rules in the order
  listed and takes the value of the first rule one of whose words occurs in the lower-cased
  text \<open>name + " " + placeholder\<close>; the declared input type is looked at only when
  no keyword rule matches.  In particular, whenever that text contains \<open>experience\<close>
  or \<open>years\<close>, the value is \<open>"5"\<close>, whatever the declared input type is.
\<close>

theorem keyword_rule_before_type_defaults:
  fixes field_type :: "string option" and field_name field_placeholder :: string
  defines "field_text \<equiv> lower (field_name @ '' '' @ field_placeholder)"
  shows "get_additional_field_value field_type field_name field_placeholder =
           (case find (\<lambda>(words, v). list_ex (\<lambda>word. str_in word field_text) words)
                   [([''experience'', ''years''], ''5''),
                    ([''skills'', ''technologies''],
                       ''Python, SQL, Data Engineering, AWS, Apache Spark''),
                    ([''education'', ''degree''], ''Bachelor's Degree in Computer Science''),
                    ([''location'', ''city''], ''Singapore''),
                    ([''salary'', ''compensation''], ''Negotiable''),
                    ([''availability'', ''start date''], ''Immediate''),
                    ([''portfolio'', ''github'', ''website''], ''https://github.com/username'')] of
              Some (words, v) \<Rightarrow> Some v
            | None \<Rightarrow>
                (if field_type = Some ''text'' then Some ''See resume for details''
                 else if field_type = Some ''number'' then Some ''5''
                 else if field_type = Some ''email'' then Some ''john.doe@example.com''
                 else None))
       \<and> (str_in ''experience'' field_text \<or> str_in ''years'' field_text \<longrightarrow>
            get_additional_field_value field_type field_name field_placeholder = Some ''5'')"
  unfolding field_text_def
  by (simp add: get_additional_field_value_def Let_def)

text \<open>
  A control named \<open>years_of_experience\<close> with input type \<open>email\<close> gets
  \<open>"5"\<close>, not the e-mail default; a text input named \<open>skills\<close> gets the skills,
  not the text default; \<open>years\<close> in the placeholder goes before \<open>city\<close> in the
  name; without a keyword the type decides, and an unknown type gives nothing.
\<close>

theorem keyword_rule_before_type_defaults_witness:
  "get_additional_field_value (Some ''email'') ''years_of_experience'' [] = Some ''5''
   \<and> get_additional_field_value (Some ''text'') ''skills'' []
       = Some ''Python, SQL, Data Engineering, AWS, Apache Spark''
   \<and> get_additional_field_value (Some ''text'') ''city'' ''Years in this city'' = Some ''5''
   \<and> get_additional_field_value (Some ''number'') ''github'' []
       = Some ''https://github.com/username''
   \<and> get_additional_field_value (Some ''number'') ''referral'' [] = Some ''5''
   \<and> get_additional_field_value (Some ''checkbox'') ''referral'' [] = None"
proof -
  note a = keyword_rule_before_type_defaults[where field_type = "Some ''email''"
             and field_name = "''years_of_experience''" and field_placeholder = "[]",
             THEN conjunct1]
  note b = keyword_rule_before_type_defaults[where field_type = "Some ''text''"
             and field_name = "''skills''" and field_placeholder = "[]", THEN conjunct1]
  note c = keyword_rule_before_type_defaults[where field_type = "Some ''text''"
             and field_name = "''city''" and field_placeholder = "''Years in this city''",
             THEN conjunct1]
  note d = keyword_rule_before_type_defaults[where field_type = "Some ''number''"
             and field_name = "''github''" and field_placeholder = "[]", THEN conjunct1]
  note e = keyword_rule_before_type_defaults[where field_type = "Some ''number''"
             and field_name = "''referral''" and field_placeholder = "[]", THEN conjunct1]
  note f = keyword_rule_before_type_defaults[where field_type = "Some ''checkbox''"
             and field_name = "''referral''" and field_placeholder = "[]", THEN conjunct1]
  show ?thesis
    using a b c d e f by code_simp
qed

subsection \<open>Outcome classification\<close>

text \<open>
  C2.  When the post-submit page can be read, \<open>check_submission_success\<close> answers from
  its lower-cased text: success if it contains a success phrase; otherwise failure if it
  contains an error phrase; otherwise success (the optimistic default).  The only call it
  makes is the read of the page source.
\<close>

theorem outcome_classification:
  assumes "env_page_source d h = Inr src"
  shows "check_submission_success d h =
           (Inr (if list_ex (\<lambda>phrase. str_in phrase (lower src))
                      [''thank you'', ''application submitted'', ''application received'',
                       ''successfully applied'', ''application complete'', ''confirmation'']
                 then True
                 else if list_ex (\<lambda>phrase. str_in phrase (lower src))
                      [''error occurred'', ''application failed'', ''please try again'',
                       ''something went wrong'', ''validation error'']
                 then False
                 else True),
            h @ [Get_page_source])"
  using assms
  by (simp add: check_submission_success_def prog_defs page_source_def
        success_indicators_def error_indicators_def Let_def)

text \<open>A thank-you page, an error page and a page with neither kind of phrase.\<close>

theorem outcome_classification_witness:
  "check_submission_success
     (failing_driver\<lparr>env_page_source := \<lambda>h. Inr ''<p>Thank You!</p>''\<rparr>) []
     = (Inr True, [Get_page_source])
   \<and> check_submission_success
     (failing_driver\<lparr>env_page_source := \<lambda>h. Inr ''<p>Validation Error</p>''\<rparr>) []
     = (Inr False, [Get_page_source])
   \<and> check_submission_success
     (failing_driver\<lparr>env_page_source := \<lambda>h. Inr ''<p>Welcome</p>''\<rparr>) []
     = (Inr True, [Get_page_source])"
proof -
  have a: "env_page_source (failing_driver\<lparr>env_page_source := \<lambda>h. Inr ''<p>Thank You!</p>''\<rparr>) []
             = Inr ''<p>Thank You!</p>''"
    by simp
  have b: "env_page_source (failing_driver\<lparr>env_page_source := \<lambda>h. Inr ''<p>Validation Error</p>''\<rparr>) []
             = Inr ''<p>Validation Error</p>''"
    by simp
  have c: "env_page_source (failing_driver\<lparr>env_page_source := \<lambda>h. Inr ''<p>Welcome</p>''\<rparr>) []
             = Inr ''<p>Welcome</p>''"
    by simp
  show ?thesis
    using outcome_classification[OF a] outcome_classification[OF b] outcome_classification[OF c]
    by code_simp
qed

text \<open>
  C10.  The optimistic default needs a readable page: when reading the page source
  raises, \<open>check_submission_success\<close> returns \<open>False\<close>.
\<close>

theorem unreadable_page_is_failure:
  assumes "env_page_source d h = Inl e"
  shows "check_submission_success d h = (Inr False, h @ [Get_page_source])"
  using assms by (simp add: check_submission_success_def prog_defs page_source_def)

theorem unreadable_page_is_failure_witness:
  "check_submission_success failing_driver [] = (Inr False, [Get_page_source])"
proof -
  have "env_page_source failing_driver [] = Inl WebDriverException"
    by (simp add: failing_driver_def)
  then show ?thesis
    using unreadable_page_is_failure[of failing_driver "[]" WebDriverException] by simp
qed

subsection \<open>Helper facts on \<open>try\<close> blocks and loops\<close>

lemma try_except_returns:
  "\<exists>v h'. try_except m (\<lambda>e. returnE c) h = (Inr v, h')"
  by (cases "m h") (auto simp: try_except_def returnE_def split: sum.splits)

lemma detect_form_patterns_returns:
  "\<exists>b h'. detect_form_patterns d h = (Inr b, h')"
  unfolding detect_form_patterns_def by (rule try_except_returns)

lemma detect_application_system_tags:
  "\<exists>tag h'. detect_application_system d h = (Inr tag, h')
      \<and> tag \<in> set [''workday'', ''lever'', ''greenhouse'', ''bamboo'', ''generic'', ''unknown'']"
proof -
  obtain b hb where "detect_form_patterns d (h @ [Get_current_url, Get_page_source]) = (Inr b, hb)"
    using detect_form_patterns_returns by blast
  then show ?thesis
    by (cases "env_current_url d h"; cases "env_page_source d (h @ [Get_current_url])")
       (auto simp: detect_application_system_def prog_defs current_url_def page_source_def Let_def)
qed

lemma find_fields_loop_returns:
  "\<exists>found h'. find_fields_loop d selectors flds h = (Inr found, h')"
proof (induction selectors arbitrary: flds h)
  case Nil
  show ?case by simp
next
  case (Cons selector rest)
  show ?case
  proof (cases "find_elements d CSS_SELECTOR selector h")
    case (Pair r h1)
    show ?thesis
    proof (cases r)
      case (Inl e)
      with Pair Cons.IH[of flds h1] show ?thesis by simp
    next
      case (Inr elements)
      obtain x flds' h2 where "append_interactable d elements flds h1 = ((x, flds'), h2)"
        by (metis surj_pair)
      with Pair Inr Cons.IH[of flds' h2] show ?thesis by simp
    qed
  qed
qed

lemma map_each_field_type_returns:
  assumes "distinct (map fst selectors)"
    and "set (map fst selectors) \<inter> set (map fst mapped) = {}"
  shows "\<exists>result h'. map_each_field_type d selectors mapped h = (Inr result, h')
            \<and> map fst result = map fst mapped @ map fst selectors"
  using assms
proof (induction selectors arbitrary: mapped h)
  case Nil
  show ?case by (simp add: returnE_def)
next
  case (Cons a rest)
  obtain field_type sels where a: "a = (field_type, sels)" by (cases a)
  obtain found h1 where f: "find_fields_by_selectors d sels h = (Inr found, h1)"
    unfolding find_fields_by_selectors_def using find_fields_loop_returns by blast
  have k: "map fst (AList.update field_type found mapped) = map fst mapped @ [field_type]"
    using Cons.prems a by (simp add: update_keys)
  have "distinct (map fst rest)"
    and "set (map fst rest) \<inter> set (map fst (AList.update field_type found mapped)) = {}"
    using Cons.prems a k by auto
  from Cons.IH[OF this, of h1] a f k show ?case
    by (auto simp: bindE_def)
qed

subsection \<open>Vendor detection\<close>

text \<open>
  C6.  When the page source and the two element lists can be read,
  \<open>detect_form_patterns\<close> is true exactly when at least three of the seven keywords
  occur in the lower-cased source, or there is a \<open>form\<close> element, or there are more
  than five \<open>input\<close> elements.
\<close>

theorem looks_like_application_form:
  assumes "env_page_source d h = Inr src"
    and "env_find_elements d (h @ [Get_page_source]) TAG_NAME ''form'' = Inr forms"
    and "env_find_elements d (h @ [Get_page_source, Find_elements TAG_NAME ''form''])
           TAG_NAME ''input'' = Inr inputs"
  shows "fst (detect_form_patterns d h) =
           Inr (3 \<le> length (filter (\<lambda>kw. str_in kw (lower src))
                        [''form'', ''application'', ''apply'', ''submit'', ''upload'',
                         ''resume'', ''cover letter''])
                \<or> 0 < length forms \<or> 5 < length inputs)"
  using assms
  by (simp add: detect_form_patterns_def prog_defs page_source_def find_elements_def
        form_indicators_def Let_def)

text \<open>
  Six blank inputs and no keyword: true.  Three keywords (apply, upload, resume) and no
  element: true.  Two keywords and five inputs: false.
\<close>

theorem looks_like_application_form_witness:
  "fst (detect_form_patterns
          (static_page ''https://example.org'' ''<input><input><input><input><input><input>''
             [] (map Element [0, 1, 2, 3, 4, 5])) []) = Inr True
   \<and> fst (detect_form_patterns
          (static_page ''https://example.org'' ''Apply now: upload your resume'' [] []) [])
       = Inr True
   \<and> fst (detect_form_patterns
          (static_page ''https://example.org'' ''Upload your resume'' []
             (map Element [0, 1, 2, 3, 4])) [])
       = Inr False"
proof -
  let ?a = "static_page ''https://example.org'' ''<input><input><input><input><input><input>''
             [] (map Element [0, 1, 2, 3, 4, 5])"
  let ?b = "static_page ''https://example.org'' ''Apply now: upload your resume'' [] []"
  let ?c = "static_page ''https://example.org'' ''Upload your resume'' []
             (map Element [0, 1, 2, 3, 4])"
  have ka: "length (filter (\<lambda>kw. str_in kw (lower ''<input><input><input><input><input><input>''))
                        [''form'', ''application'', ''apply'', ''submit'', ''upload'',
                         ''resume'', ''cover letter'']) = 0"
    by code_simp
  have a: "fst (detect_form_patterns ?a []) = Inr True"
    using looks_like_application_form[of ?a "[]" "''<input><input><input><input><input><input>''"
            "[]" "map Element [0, 1, 2, 3, 4, 5]"] ka
    by (simp add: static_page_def)
  have kb: "length (filter (\<lambda>kw. str_in kw (lower ''Apply now: upload your resume''))
                        [''form'', ''application'', ''apply'', ''submit'', ''upload'',
                         ''resume'', ''cover letter'']) = 3"
    by code_simp
  have b: "fst (detect_form_patterns ?b []) = Inr True"
    using looks_like_application_form[of ?b "[]" "''Apply now: upload your resume''" "[]" "[]"] kb
    by (simp add: static_page_def)
  have kc: "length (filter (\<lambda>kw. str_in kw (lower ''Upload your resume''))
                        [''form'', ''application'', ''apply'', ''submit'', ''upload'',
                         ''resume'', ''cover letter'']) = 2"
    by code_simp
  have c: "fst (detect_form_patterns ?c []) = Inr False"
    using looks_like_application_form[of ?c "[]" "''Upload your resume''" "[]"
            "map Element [0, 1, 2, 3, 4]"] kc
    by (simp add: static_page_def)
  show ?thesis using a b c by simp
qed

text \<open>
  C5, as the code has it.  With a readable address and source,
  \<open>detect_application_system\<close> looks for \<open>workday\<close>, \<open>lever\<close>, \<open>greenhouse\<close>,
  \<open>bamboo\<close>, in this order, in the lower-cased address, then in the lower-cased source,
  and returns the first that occurs; BambooHR is looked for as \<open>bamboo\<close> and reported
  as \<open>bamboo\<close>.  If none occurs the answer is \<open>generic\<close> when
  \<open>detect_form_patterns\<close> holds and \<open>unknown\<close> otherwise.  In every environment the
  call returns, and the tag is one of these six.
\<close>

theorem detect_priority_order:
  "(env_current_url d h = Inr url \<and> env_page_source d (h @ [Get_current_url]) = Inr src \<longrightarrow>
      fst (detect_application_system d h) =
        Inr (if str_in ''workday'' (lower url) then ''workday''
             else if str_in ''lever'' (lower url) then ''lever''
             else if str_in ''greenhouse'' (lower url) then ''greenhouse''
             else if str_in ''bamboo'' (lower url) then ''bamboo''
             else if str_in ''workday'' (lower src) then ''workday''
             else if str_in ''lever'' (lower src) then ''lever''
             else if str_in ''greenhouse'' (lower src) then ''greenhouse''
             else if str_in ''bamboo'' (lower src) then ''bamboo''
             else if fst (detect_form_patterns d (h @ [Get_current_url, Get_page_source])) = Inr True
               then ''generic''
             else ''unknown''))
   \<and> (\<exists>tag h'. detect_application_system d h = (Inr tag, h')
         \<and> tag \<in> set [''workday'', ''lever'', ''greenhouse'', ''bamboo'', ''generic'', ''unknown''])"
proof (rule conjI)
  obtain b hb where "detect_form_patterns d (h @ [Get_current_url, Get_page_source]) = (Inr b, hb)"
    using detect_form_patterns_returns by blast
  then show "env_current_url d h = Inr url \<and> env_page_source d (h @ [Get_current_url]) = Inr src \<longrightarrow>
      fst (detect_application_system d h) =
        Inr (if str_in ''workday'' (lower url) then ''workday''
             else if str_in ''lever'' (lower url) then ''lever''
             else if str_in ''greenhouse'' (lower url) then ''greenhouse''
             else if str_in ''bamboo'' (lower url) then ''bamboo''
             else if str_in ''workday'' (lower src) then ''workday''
             else if str_in ''lever'' (lower src) then ''lever''
             else if str_in ''greenhouse'' (lower src) then ''greenhouse''
             else if str_in ''bamboo'' (lower src) then ''bamboo''
             else if fst (detect_form_patterns d (h @ [Get_current_url, Get_page_source])) = Inr True
               then ''generic''
             else ''unknown'')"
    by (simp add: detect_application_system_def prog_defs current_url_def page_source_def Let_def)
next
  show "\<exists>tag h'. detect_application_system d h = (Inr tag, h')
         \<and> tag \<in> set [''workday'', ''lever'', ''greenhouse'', ''bamboo'', ''generic'', ''unknown'']"
    by (rule detect_application_system_tags)
qed

text \<open>
  An address naming two vendors goes to the one earlier in the order; a vendor named
  only in the source is found there; a page with a form and no vendor is generic.
\<close>

theorem detect_priority_order_witness:
  "fst (detect_application_system
          (static_page ''https://jobs.Lever.co/workday-inc'' ''<html></html>'' [] []) [])
     = Inr ''workday''
   \<and> fst (detect_application_system
          (static_page ''https://example.org/careers'' ''<p>Powered by Greenhouse</p>'' [] []) [])
     = Inr ''greenhouse''
   \<and> fst (detect_application_system
          (static_page ''https://example.org/careers'' ''<html></html>'' [Element 0] []) [])
     = Inr ''generic''"
proof -
  let ?a = "static_page ''https://jobs.Lever.co/workday-inc'' ''<html></html>'' [] []"
  let ?b = "static_page ''https://example.org/careers'' ''<p>Powered by Greenhouse</p>'' [] []"
  let ?c = "static_page ''https://example.org/careers'' ''<html></html>'' [Element 0] []"
  have a: "env_current_url ?a [] = Inr ''https://jobs.Lever.co/workday-inc''
           \<and> env_page_source ?a ([] @ [Get_current_url]) = Inr ''<html></html>''"
    by (simp add: static_page_def)
  have b: "env_current_url ?b [] = Inr ''https://example.org/careers''
           \<and> env_page_source ?b ([] @ [Get_current_url]) = Inr ''<p>Powered by Greenhouse</p>''"
    by (simp add: static_page_def)
  have c: "env_current_url ?c [] = Inr ''https://example.org/careers''
           \<and> env_page_source ?c ([] @ [Get_current_url]) = Inr ''<html></html>''"
    by (simp add: static_page_def)
  note ra = detect_priority_order[of ?a "[]" "''https://jobs.Lever.co/workday-inc''"
                "''<html></html>''", THEN conjunct1, rule_format, OF a]
  note rb = detect_priority_order[of ?b "[]" "''https://example.org/careers''"
                "''<p>Powered by Greenhouse</p>''", THEN conjunct1, rule_format, OF b]
  note rc = detect_priority_order[of ?c "[]" "''https://example.org/careers''"
                "''<html></html>''", THEN conjunct1, rule_format, OF c]
  show ?thesis
    using ra rb rc by code_simp
qed

text \<open>
  The claim names the fourth vendor \<open>bamboohr\<close>.  An address with \<open>bamboo\<close> and
  without \<open>bamboohr\<close> is detected all the same, and the tag returned, \<open>bamboo\<close>, is
  not among the tags the claim lists.
\<close>

theorem detect_bamboo_counterexample:
  "fst (detect_application_system
          (static_page ''https://bamboo.example.org/careers'' ''<html></html>'' [] []) [])
     = Inr ''bamboo''
   \<and> \<not> str_in ''bamboohr'' (lower ''https://bamboo.example.org/careers'')
   \<and> \<not> str_in ''bamboohr'' (lower ''<html></html>'')
   \<and> ''bamboo'' \<notin> set [''workday'', ''lever'', ''greenhouse'', ''bamboohr'', ''generic'', ''unknown'']"
  by code_simp

subsection \<open>Field mapping\<close>

text \<open>
  C9.  For a system tag that is not a key of the signature table (\<open>unknown\<close> is not
  one), \<open>map_form_fields\<close> does what it does for \<open>generic\<close>: it runs the field
  locator over the generic selector lists and returns a mapping with the five field
  types, in the table's order.
\<close>

theorem unknown_tag_maps_as_generic:
  assumes "system_type \<notin> set [''workday'', ''lever'', ''greenhouse'', ''bamboo'', ''generic'']"
  shows "map_form_fields d system_type h = map_form_fields d ''generic'' h
       \<and> map_form_fields d system_type h = map_each_field_type d generic_selectors [] h
       \<and> (\<exists>mapped h'. map_form_fields d system_type h = (Inr mapped, h')
             \<and> map fst mapped = [''name_fields'', ''email_fields'', ''phone_fields'',
                                  ''resume_upload'', ''submit_button''])"
proof -
  obtain mapped h' where m: "map_each_field_type d generic_selectors [] h = (Inr mapped, h')"
      and k: "map fst mapped = [] @ map fst generic_selectors"
    using map_each_field_type_returns[of generic_selectors "[]" d h]
    by (auto simp: generic_selectors_def)
  have g: "map_form_fields d ''generic'' h = map_each_field_type d generic_selectors [] h"
    using m by (simp add: map_form_fields_def load_form_patterns_def try_except_def)
  have s: "map_form_fields d system_type h = map_each_field_type d generic_selectors [] h"
    using m assms by (simp add: map_form_fields_def load_form_patterns_def try_except_def)
  from g s m k show ?thesis by (simp add: generic_selectors_def)
qed

text \<open>
  On a page whose only control is found by a placeholder selector, the tag \<open>unknown\<close>
  finds it as a name field: the generic lists were used.
\<close>

theorem unknown_tag_maps_as_generic_witness:
  "fst (map_form_fields placeholder_page ''unknown'' []) =
     Inr [(''name_fields'', [Element 1]), (''email_fields'', []), (''phone_fields'', []),
          (''resume_upload'', []), (''submit_button'', [])]"
proof -
  have a: "''unknown'' \<notin> set [''workday'', ''lever'', ''greenhouse'', ''bamboo'', ''generic'']"
    by simp
  have "fst (map_form_fields placeholder_page ''generic'' []) =
     Inr [(''name_fields'', [Element 1]), (''email_fields'', []), (''phone_fields'', []),
          (''resume_upload'', []), (''submit_button'', [])]"
    by code_simp
  then show ?thesis
    using unknown_tag_maps_as_generic[OF a, of placeholder_page "[]"] by simp
qed

subsection \<open>Field classification\<close>

lemma should_fill_stable:
  assumes D: "\<forall>h'. env_is_displayed d h' field = Inr visible"
    and E: "\<forall>h'. env_is_enabled d h' field = Inr enabled"
    and G: "\<forall>h' a. env_get_attribute d h' field a = Inr (attr a)"
  shows "fst (should_fill_additional_field d field h) =
           Inr (if \<not> visible \<or> \<not> enabled then False
                else if truthy (attr ''value'') then False
                else if truthy (attr ''required'') \<or> truthy (attr ''aria-required'') then True
                else if (case attr ''type'' of None \<Rightarrow> False | Some t \<Rightarrow> t \<in> set relevant_types)
                  then True
                else if list_ex
                          (\<lambda>kw. str_in kw (lower (if truthy (attr ''name'') then str_of (attr ''name'')
                                                   else str_of (attr ''id''))))
                          relevant_names
                      \<or> list_ex (\<lambda>kw. str_in kw (lower (str_of (attr ''placeholder''))))
                          relevant_names
                  then True
                else False)"
proof -
  have d: "\<And>h'. is_displayed d field h' = (Inr visible, h' @ [Is_displayed field])"
    using D by (simp add: is_displayed_def env_call_def)
  have e: "\<And>h'. is_enabled d field h' = (Inr enabled, h' @ [Is_enabled field])"
    using E by (simp add: is_enabled_def env_call_def)
  have g: "\<And>h' a. get_attribute d field a h' = (Inr (attr a), h' @ [Get_attribute field a])"
    using G by (simp add: get_attribute_def env_call_def)
  have n: "\<And>h'. name_or_id d field h' =
              (Inr (if truthy (attr ''name'') then str_of (attr ''name'') else str_of (attr ''id'')),
               if truthy (attr ''name'') then h' @ [Get_attribute field ''name'']
               else h' @ [Get_attribute field ''name'', Get_attribute field ''id''])"
    by (simp add: name_or_id_def bindE_def returnE_def g)
  have p: "\<And>h'. placeholder_or_empty d field h' =
              (Inr (str_of (attr ''placeholder'')), h' @ [Get_attribute field ''placeholder''])"
    by (simp add: placeholder_or_empty_def bindE_def returnE_def g)
  show ?thesis
    unfolding should_fill_additional_field_def
    by (simp add: try_except_def bindE_def returnE_def d e g n p)
qed

lemma should_fill_field_stable:
  assumes D: "\<forall>h'. env_is_displayed d h' field = Inr visible"
    and E: "\<forall>h'. env_is_enabled d h' field = Inr enabled"
    and G: "\<forall>h' a. env_get_attribute d h' field a = Inr (attr a)"
  shows "fst (should_fill_field d field h) =
           Inr (if \<not> visible \<or> \<not> enabled then False
                else if truthy (attr ''value'') then False
                else if truthy (attr ''required'') \<or> truthy (attr ''aria-required'') then True
                else if (case attr ''type'' of None \<Rightarrow> False | Some t \<Rightarrow> t \<in> set relevant_types)
                  then True
                else if list_ex
                          (\<lambda>kw. str_in kw (lower (if truthy (attr ''name'') then str_of (attr ''name'')
                                                   else str_of (attr ''id''))))
                          relevant_names_linkedin
                  then True
                else False)"
proof -
  have d: "\<And>h'. is_displayed d field h' = (Inr visible, h' @ [Is_displayed field])"
    using D by (simp add: is_displayed_def env_call_def)
  have e: "\<And>h'. is_enabled d field h' = (Inr enabled, h' @ [Is_enabled field])"
    using E by (simp add: is_enabled_def env_call_def)
  have g: "\<And>h' a. get_attribute d field a h' = (Inr (attr a), h' @ [Get_attribute field a])"
    using G by (simp add: get_attribute_def env_call_def)
  have n: "\<And>h'. name_or_id d field h' =
              (Inr (if truthy (attr ''name'') then str_of (attr ''name'') else str_of (attr ''id'')),
               if truthy (attr ''name'') then h' @ [Get_attribute field ''name'']
               else h' @ [Get_attribute field ''name'', Get_attribute field ''id''])"
    by (simp add: name_or_id_def bindE_def returnE_def g)
  show ?thesis
    unfolding should_fill_field_def
    by (simp add: try_except_def bindE_def returnE_def d e g n)
qed

text \<open>
  C4, as the code has it.  Take a control whose visibility, enabledness and attributes can
  be read and whose \<open>required\<close> and \<open>aria-required\<close> attributes do not say
  \<open>false\<close>.  \<open>should_fill_additional_field\<close> decides in this order: not visible
  or not enabled, no; a non-empty value, no; a non-empty \<open>required\<close> or
  \<open>aria-required\<close> attribute, yes; an input type among text, email, tel, number, url,
  yes; one of experience, years, skills, education, location, salary, availability in the
  lower-cased name (the id when the name is empty) or in the lower-cased placeholder, yes;
  otherwise no.  The Easy Apply copy, \<open>should_fill_field\<close>, decides in the same order
  up to the input type; its last test looks for one of name, email, phone, experience,
  years, skills in the lower-cased name (or id) and does not read the placeholder.
\<close>

theorem should_fill_decision_order:
  assumes "\<forall>h'. env_is_displayed d h' field = Inr visible"
    and "\<forall>h'. env_is_enabled d h' field = Inr enabled"
    and "\<forall>h' a. env_get_attribute d h' field a = Inr (attr a)"
    and "lower (str_of (attr ''required'')) \<noteq> ''false''
         \<and> lower (str_of (attr ''aria-required'')) \<noteq> ''false''"
  shows "fst (should_fill_additional_field d field h) =
           Inr (if \<not> visible \<or> \<not> enabled then False
                else if truthy (attr ''value'') then False
                else if truthy (attr ''required'') \<or> truthy (attr ''aria-required'') then True
                else if attr ''type'' \<in> set (map Some [''text'', ''email'', ''tel'', ''number'', ''url''])
                  then True
                else if list_ex
                          (\<lambda>kw. str_in kw (lower (if truthy (attr ''name'') then str_of (attr ''name'')
                                                   else str_of (attr ''id''))))
                          [''experience'', ''years'', ''skills'', ''education'', ''location'',
                           ''salary'', ''availability'']
                      \<or> list_ex (\<lambda>kw. str_in kw (lower (str_of (attr ''placeholder''))))
                          [''experience'', ''years'', ''skills'', ''education'', ''location'',
                           ''salary'', ''availability'']
                  then True
                else False)
       \<and> fst (should_fill_field d field h) =
           Inr (if \<not> visible \<or> \<not> enabled then False
                else if truthy (attr ''value'') then False
                else if truthy (attr ''required'') \<or> truthy (attr ''aria-required'') then True
                else if attr ''type'' \<in> set (map Some [''text'', ''email'', ''tel'', ''number'', ''url''])
                  then True
                else if list_ex
                          (\<lambda>kw. str_in kw (lower (if truthy (attr ''name'') then str_of (attr ''name'')
                                                   else str_of (attr ''id''))))
                          [''name'', ''email'', ''phone'', ''experience'', ''years'', ''skills'']
                  then True
                else False)"
proof -
  have t: "(case attr ''type'' of None \<Rightarrow> False | Some t \<Rightarrow> t \<in> set relevant_types)
             = (attr ''type'' \<in> set (map Some [''text'', ''email'', ''tel'', ''number'', ''url'']))"
    by (cases "attr ''type''") (auto simp: relevant_types_def)
  show ?thesis
    unfolding should_fill_stable[OF assms(1,2,3)] should_fill_field_stable[OF assms(1,2,3)]
      t relevant_names_def relevant_names_linkedin_def
    by (rule conjI) (rule refl)+
qed

text \<open>
  A required text input that already has a value is left alone by both; \<open>aria-required\<close>
  and the type each suffice for both on an empty control; a checkbox with the id
  \<open>Expected_Salary\<close> is filled by the external mapper only, one named
  \<open>Phone_Number\<close> by the Easy Apply copy only; a disabled control is not filled.
\<close>

theorem should_fill_decision_order_witness:
  "fst (should_fill_additional_field
          (control_page True True
             [(''value'', ''Jane''), (''required'', ''true''), (''type'', ''text''), (''name'', ''years'')])
          (Element 0) []) = Inr False
   \<and> fst (should_fill_field
          (control_page True True
             [(''value'', ''Jane''), (''required'', ''true''), (''type'', ''text''), (''name'', ''years'')])
          (Element 0) []) = Inr False
   \<and> fst (should_fill_additional_field
          (control_page True True [(''type'', ''checkbox''), (''aria-required'', ''true'')])
          (Element 0) []) = Inr True
   \<and> fst (should_fill_field
          (control_page True True [(''type'', ''checkbox''), (''aria-required'', ''true'')])
          (Element 0) []) = Inr True
   \<and> fst (should_fill_additional_field
          (control_page True True [(''type'', ''tel'')]) (Element 0) []) = Inr True
   \<and> fst (should_fill_field
          (control_page True True [(''type'', ''tel'')]) (Element 0) []) = Inr True
   \<and> fst (should_fill_additional_field
          (control_page True True [(''type'', ''checkbox''), (''id'', ''Expected_Salary'')])
          (Element 0) []) = Inr True
   \<and> fst (should_fill_field
          (control_page True True [(''type'', ''checkbox''), (''id'', ''Expected_Salary'')])
          (Element 0) []) = Inr False
   \<and> fst (should_fill_additional_field
          (control_page True True [(''type'', ''checkbox''), (''name'', ''Phone_Number'')])
          (Element 0) []) = Inr False
   \<and> fst (should_fill_field
          (control_page True True [(''type'', ''checkbox''), (''name'', ''Phone_Number'')])
          (Element 0) []) = Inr True
   \<and> fst (should_fill_additional_field
          (control_page True False [(''required'', ''true''), (''type'', ''text'')])
          (Element 0) []) = Inr False
   \<and> fst (should_fill_field
          (control_page True False [(''required'', ''true''), (''type'', ''text'')])
          (Element 0) []) = Inr False"
proof -
  let ?a1 = "[(''value'', ''Jane''), (''required'', ''true''), (''type'', ''text''), (''name'', ''years'')]"
  let ?a2 = "[(''type'', ''checkbox''), (''aria-required'', ''true'')]"
  let ?a3 = "[(''type'', ''tel'')]"
  let ?a4 = "[(''type'', ''checkbox''), (''id'', ''Expected_Salary'')]"
  let ?a5 = "[(''type'', ''checkbox''), (''name'', ''Phone_Number'')]"
  let ?a6 = "[(''required'', ''true''), (''type'', ''text'')]"
  have h: "\<And>v e attrs.
      (\<forall>h'. env_is_displayed (control_page v e attrs) h' (Element 0) = Inr v)
    \<and> (\<forall>h'. env_is_enabled (control_page v e attrs) h' (Element 0) = Inr e)
    \<and> (\<forall>h' a. env_get_attribute (control_page v e attrs) h' (Element 0) a = Inr (map_of attrs a))"
    by (simp add: control_page_def)
  note r = should_fill_decision_order[OF h[THEN conjunct1] h[THEN conjunct2, THEN conjunct1]
             h[THEN conjunct2, THEN conjunct2], of _ _ _ "[]"]
  have n1: "lower (str_of (map_of ?a1 ''required'')) \<noteq> ''false''
            \<and> lower (str_of (map_of ?a1 ''aria-required'')) \<noteq> ''false''" by code_simp
  have n2: "lower (str_of (map_of ?a2 ''required'')) \<noteq> ''false''
            \<and> lower (str_of (map_of ?a2 ''aria-required'')) \<noteq> ''false''" by code_simp
  have n3: "lower (str_of (map_of ?a3 ''required'')) \<noteq> ''false''
            \<and> lower (str_of (map_of ?a3 ''aria-required'')) \<noteq> ''false''" by code_simp
  have n4: "lower (str_of (map_of ?a4 ''required'')) \<noteq> ''false''
            \<and> lower (str_of (map_of ?a4 ''aria-required'')) \<noteq> ''false''" by code_simp
  have n5: "lower (str_of (map_of ?a5 ''required'')) \<noteq> ''false''
            \<and> lower (str_of (map_of ?a5 ''aria-required'')) \<noteq> ''false''" by code_simp
  have n6: "lower (str_of (map_of ?a6 ''required'')) \<noteq> ''false''
            \<and> lower (str_of (map_of ?a6 ''aria-required'')) \<noteq> ''false''" by code_simp
  show ?thesis
    using r[of ?a1 True True, OF n1] r[of ?a2 True True, OF n2] r[of ?a3 True True, OF n3]
      r[of ?a4 True True, OF n4] r[of ?a5 True True, OF n5] r[of ?a6 True False, OF n6]
    by code_simp
qed

text \<open>
  The claim fails on the Easy Apply copy: a checkbox whose placeholder contains
  \<open>location\<close>, or whose id contains \<open>salary\<close>, is rejected.  It also fails on
  a checkbox named \<open>newsletter\<close> with \<open>aria-required="false"\<close>: the external
  mapper accepts it, because it tests the attribute for being non-empty, not its value.
\<close>

theorem should_fill_counterexample:
  "fst (should_fill_field
          (control_page True True [(''type'', ''checkbox''), (''placeholder'', ''Your LOCATION'')])
          (Element 0) []) = Inr False
   \<and> str_in ''location'' (lower ''Your LOCATION'')
   \<and> fst (should_fill_field
          (control_page True True [(''type'', ''checkbox''), (''id'', ''Expected_Salary'')])
          (Element 0) []) = Inr False
   \<and> str_in ''salary'' (lower ''Expected_Salary'')
   \<and> fst (should_fill_additional_field
          (control_page True True
             [(''type'', ''checkbox''), (''name'', ''newsletter''), (''aria-required'', ''false'')])
          (Element 0) []) = Inr True
   \<and> \<not> list_ex (\<lambda>kw. str_in kw (lower ''newsletter''))
          [''experience'', ''years'', ''skills'', ''education'', ''location'', ''salary'',
           ''availability'']"
  by code_simp

subsection \<open>Dropdowns\<close>

lemma select_first_match_stable:
  assumes T: "\<forall>h' opt. env_text d h' opt = Inr (label opt)"
    and V: "\<forall>h' s. env_select_by_visible_text d h' field s = Inr ()"
  shows "fst (select_first_match d field opts h) =
           Inr (find (\<lambda>opt. list_ex (\<lambda>kw. str_in kw (lower (label opt))) select_keywords) opts \<noteq> None)
       \<and> selections (snd (select_first_match d field opts h)) =
           selections h @
           (case find (\<lambda>opt. list_ex (\<lambda>kw. str_in kw (lower (label opt))) select_keywords) opts of
              None \<Rightarrow> []
            | Some opt \<Rightarrow> [Select_by_visible_text field (label opt)])"
proof (induction opts arbitrary: h)
  case Nil
  show ?case by (simp add: returnE_def)
next
  case (Cons opt rest)
  have t: "\<And>h' x. get_text d x h' = (Inr (label x), h' @ [Get_text x])"
    using T by (simp add: get_text_def env_call_def)
  have v: "\<And>h' s. select_by_visible_text d field s h'
                      = (Inr (), h' @ [Select_by_visible_text field s])"
    using V by (simp add: select_by_visible_text_def env_call_def)
  show ?case
  proof (cases "list_ex (\<lambda>kw. str_in kw (lower (label opt))) select_keywords")
    case True
    then show ?thesis
      by (simp add: bindE_def returnE_def sleep_def t v selections_def)
  next
    case False
    then show ?thesis
      using Cons.IH[of "h @ [Get_text opt]"]
      by (simp add: bindE_def t selections_def)
  qed
qed

text \<open>
  C3, as the code has it.  Take a dropdown whose options and their texts can be read and
  on which selecting succeeds.  With more than one option, \<open>fill_select_field\<close>
  selects, by its visible text, the first option whose lower-cased text contains one of
  yes, available, immediate, bachelor, 5+, and the option at index 1 when there is none;
  it returns \<open>True\<close>.  With at most one option it selects nothing and returns
  \<open>False\<close>.
\<close>

theorem select_field_resolution:
  assumes "env_new_Select d h field = Inr ()"
    and "env_options d (h @ [New_Select field]) field = Inr opts"
    and "\<forall>h' opt. env_text d h' opt = Inr (label opt)"
    and "\<forall>h' s. env_select_by_visible_text d h' field s = Inr ()"
    and "\<forall>h' i. env_select_by_index d h' field i = Inr ()"
  shows "fst (fill_select_field d field h) = Inr (1 < length opts)
       \<and> selections (snd (fill_select_field d field h)) =
           selections h @
           (if 1 < length opts
            then [case find (\<lambda>opt. list_ex (\<lambda>kw. str_in kw (lower (label opt)))
                                     [''yes'', ''available'', ''immediate'', ''bachelor'', ''5+'']) opts of
                    Some opt \<Rightarrow> Select_by_visible_text field (label opt)
                  | None \<Rightarrow> Select_by_index field 1]
            else [])"
proof -
  let ?P = "\<lambda>opt. list_ex (\<lambda>kw. str_in kw (lower (label opt))) select_keywords"
  let ?h2 = "h @ [New_Select field, Select_options field]"
  obtain r h3 where m: "select_first_match d field opts ?h2 = (r, h3)"
    by (cases "select_first_match d field opts ?h2")
  from select_first_match_stable[OF assms(3,4), of opts ?h2] m
  have r: "r = Inr (find ?P opts \<noteq> None)"
    and s: "selections h3 = selections h @
              (case find ?P opts of None \<Rightarrow> [] | Some opt \<Rightarrow> [Select_by_visible_text field (label opt)])"
    by (simp_all add: selections_def)
  have i: "\<And>h' i. select_by_index d field i h' = (Inr (), h' @ [Select_by_index field i])"
    using assms(5) by (simp add: select_by_index_def env_call_def)
  have k: "select_keywords = [''yes'', ''available'', ''immediate'', ''bachelor'', ''5+'']"
    by (simp add: select_keywords_def)
  show ?thesis
  proof (cases "1 < length opts")
    case False
    then show ?thesis
      using assms(1,2)
      by (simp add: fill_select_field_def prog_defs new_Select_def options_def selections_def)
  next
    case True
    show ?thesis
    proof (cases "find ?P opts")
      case None
      with True m r s assms(1,2) show ?thesis
        unfolding k[symmetric]
        by (simp add: fill_select_field_def prog_defs new_Select_def options_def i sleep_def
              selections_def)
    next
      case (Some opt)
      with True m r s assms(1,2) show ?thesis
        unfolding k[symmetric]
        by (simp add: fill_select_field_def prog_defs new_Select_def options_def selections_def)
    qed
  qed
qed

text \<open>
  The dropdown of the specification's scenario, and one without a keyword.
\<close>

theorem select_field_resolution_witness:
  "fst (fill_select_field
          (dropdown_page [''Select...'', ''No'', ''Yes, immediately available'']) (Element 0) [])
     = Inr True
   \<and> selections (snd (fill_select_field
          (dropdown_page [''Select...'', ''No'', ''Yes, immediately available'']) (Element 0) []))
     = [Select_by_visible_text (Element 0) ''Yes, immediately available'']
   \<and> selections (snd (fill_select_field
          (dropdown_page [''Select...'', ''No'', ''Maybe'']) (Element 0) []))
     = [Select_by_index (Element 0) 1]"
proof -
  let ?a = "[''Select...'', ''No'', ''Yes, immediately available'']"
  let ?b = "[''Select...'', ''No'', ''Maybe'']"
  have h: "\<And>labels.
       env_new_Select (dropdown_page labels) [] (Element 0) = Inr ()
     \<and> env_options (dropdown_page labels) ([] @ [New_Select (Element 0)]) (Element 0)
          = Inr (map Element [1..<Suc (length labels)])
     \<and> (\<forall>h' opt. env_text (dropdown_page labels) h' opt = Inr (label_of labels opt))
     \<and> (\<forall>h' s. env_select_by_visible_text (dropdown_page labels) h' (Element 0) s = Inr ())
     \<and> (\<forall>h' i. env_select_by_index (dropdown_page labels) h' (Element 0) i = Inr ())"
    by (simp add: dropdown_page_def)
  note r = select_field_resolution[OF h[THEN conjunct1] h[THEN conjunct2, THEN conjunct1]
             h[THEN conjunct2, THEN conjunct2, THEN conjunct1]
             h[THEN conjunct2, THEN conjunct2, THEN conjunct2, THEN conjunct1]
             h[THEN conjunct2, THEN conjunct2, THEN conjunct2, THEN conjunct2]]
  show ?thesis
    using r[of ?a] r[of ?b] by code_simp
qed

text \<open>
  The claim's last sentence fails: a dropdown whose only option is \<open>Yes\<close> is left
  alone.  The scan sits under the test \<open>len(options) > 1\<close>.
\<close>

theorem single_option_dropdown_counterexample:
  "fill_select_field (dropdown_page [''Yes'']) (Element 0) []
     = (Inr False, [New_Select (Element 0), Select_options (Element 0)])
   \<and> list_ex (\<lambda>kw. str_in kw (lower ''Yes''))
        [''yes'', ''available'', ''immediate'', ''bachelor'', ''5+'']"
  by code_simp

subsection \<open>Steps that never click\<close>

lemma quiet_returnE: "quiet (returnE x)"
  by (simp add: quiet_def returnE_def)

lemma quiet_bindE: "quiet m \<Longrightarrow> (\<And>x. quiet (f x)) \<Longrightarrow> quiet (bindE m f)"
  unfolding quiet_def bindE_def
  by (auto split: prod.splits sum.splits) (metis snd_conv)+

lemma quiet_try_except: "quiet m \<Longrightarrow> (\<And>e. quiet (handler e)) \<Longrightarrow> quiet (try_except m handler)"
  unfolding quiet_def try_except_def
  by (auto split: prod.splits sum.splits) (metis snd_conv)+

lemma quiet_try_except_NoSuchElement:
  "quiet m \<Longrightarrow> quiet handler \<Longrightarrow> quiet (try_except_NoSuchElement m handler)"
  unfolding quiet_def try_except_NoSuchElement_def
  by (auto split: prod.splits sum.splits exn.splits) (metis snd_conv)+

lemma quiet_env_call: "\<not> is_click c \<Longrightarrow> quiet (env_call c answer)"
  by (simp add: quiet_def env_call_def clicks_def)

lemma quiet_sleep: "quiet sleep"
  by (simp add: quiet_def sleep_def clicks_def)

lemma quiet_if: "quiet a \<Longrightarrow> quiet b \<Longrightarrow> quiet (if c then a else b)"
  by simp

lemma quiet_ops:
  "quiet (find_elements d by sel)" "quiet (find_element d by sel)"
  "quiet (is_displayed d el)" "quiet (is_enabled d el)" "quiet (get_attribute d el a)"
  "quiet (clear d el)" "quiet (send_keys d el s)" "quiet (new_Select d el)"
  "quiet (options d el)" "quiet (get_text d el)" "quiet (select_by_visible_text d el s)"
  "quiet (select_by_index d el i)"
  by (simp_all add: quiet_env_call find_elements_def find_element_def is_displayed_def
        is_enabled_def get_attribute_def clear_def send_keys_def new_Select_def options_def
        get_text_def select_by_visible_text_def select_by_index_def)

lemmas quiet_intros =
  quiet_returnE quiet_bindE quiet_try_except quiet_try_except_NoSuchElement quiet_sleep
  quiet_if quiet_ops

lemma quiet_human_type: "quiet (human_type d el s)"
  by (induction s) (auto intro!: quiet_intros)

lemma quiet_fill_field_appropriately: "quiet (fill_field_appropriately d field field_type profile_data)"
  unfolding fill_field_appropriately_def Let_def
  by (intro quiet_intros quiet_human_type)

lemma quiet_fill_first_empty: "quiet (fill_first_empty d fs field_type profile_data)"
  by (induction fs) (auto intro!: quiet_intros quiet_fill_field_appropriately)

lemma quiet_fill_basic_fields: "quiet (fill_basic_fields d mapped profile_data)"
  unfolding fill_basic_fields_def
  by (intro quiet_intros quiet_fill_first_empty)

lemma quiet_handle_resume_upload: "quiet (handle_resume_upload d resume_fields resume_file)"
  unfolding handle_resume_upload_def
  by (cases resume_fields) (auto intro!: quiet_intros)

lemma quiet_name_or_id: "quiet (name_or_id d field)"
  unfolding name_or_id_def by (intro quiet_intros)

lemma quiet_placeholder_or_empty: "quiet (placeholder_or_empty d field)"
  unfolding placeholder_or_empty_def by (intro quiet_intros)

lemma quiet_should_fill_additional_field: "quiet (should_fill_additional_field d field)"
  unfolding should_fill_additional_field_def
  by (intro quiet_intros quiet_name_or_id quiet_placeholder_or_empty)

lemma quiet_fill_additional_field: "quiet (fill_additional_field d field)"
  unfolding fill_additional_field_def Let_def
  by (intro quiet_intros quiet_name_or_id quiet_placeholder_or_empty quiet_human_type)

lemma quiet_select_first_match: "quiet (select_first_match d field opts)"
  by (induction opts) (auto simp: Let_def intro!: quiet_intros)

lemma quiet_fill_select_field: "quiet (fill_select_field d field)"
  unfolding fill_select_field_def
  by (intro quiet_intros quiet_select_first_match)

lemma quiet_fill_each:
  "(\<And>field. quiet (fill d field)) \<Longrightarrow> quiet (fill_each d fill fs q)"
  by (induction fs arbitrary: q)
     (auto intro!: quiet_intros quiet_should_fill_additional_field)

lemma quiet_fill_additional_questions: "quiet (fill_additional_questions d mapped)"
  unfolding fill_additional_questions_def
  by (intro quiet_intros quiet_fill_each quiet_fill_additional_field quiet_fill_select_field)

lemma quiet_try_cover_selectors: "quiet (try_cover_selectors d selectors cover_letter)"
  by (induction selectors) (auto intro!: quiet_intros quiet_human_type)

lemma quiet_add_cover_letter: "quiet (add_cover_letter d mapped cover_letter)"
  unfolding add_cover_letter_def
  by (intro quiet_intros quiet_try_cover_selectors)

subsection \<open>The upload gate\<close>

lemma fill_basic_fields_returns: "\<exists>h'. fill_basic_fields d mapped profile_data h = (Inr (), h')"
  unfolding fill_basic_fields_def using try_except_returns[where c="()"] by simp

lemma handle_resume_upload_returns:
  "\<exists>b h'. handle_resume_upload d resume_fields resume_file h = (Inr b, h')"
  unfolding handle_resume_upload_def by (rule try_except_returns)

lemma fill_additional_questions_returns:
  "\<exists>q h'. fill_additional_questions d mapped h = (Inr q, h')"
  unfolding fill_additional_questions_def by (rule try_except_returns)

lemma add_cover_letter_returns:
  "\<exists>b h'. add_cover_letter d mapped cover_letter h = (Inr b, h')"
  unfolding add_cover_letter_def by (rule try_except_returns)

lemma handle_resume_upload_False_iff:
  "fst (handle_resume_upload d resume_fields resume_file h) = Inr False \<longleftrightarrow>
     resume_fields = []
     \<or> (\<exists>resume_field rest e. resume_fields = resume_field # rest
            \<and> env_send_keys d h resume_field resume_file = Inl e)"
  by (cases resume_fields; cases "env_send_keys d h (hd resume_fields) resume_file")
     (auto simp: handle_resume_upload_def prog_defs send_keys_def sleep_def)

lemma fill_without_upload:
  assumes "fst (handle_resume_upload d (dict_get mapped ''resume_upload'' []) resume_file
                  (snd (fill_basic_fields d mapped profile_data h))) = Inr False"
  shows "fst (fill_application_form d mapped profile_data resume_file cover_letter h) = Inr False"
    and "clicks (snd (fill_application_form d mapped profile_data resume_file cover_letter h))
           = clicks h"
proof -
  obtain h1 where b: "fill_basic_fields d mapped profile_data h = (Inr (), h1)"
    using fill_basic_fields_returns by blast
  obtain u h2 where u: "handle_resume_upload d (dict_get mapped ''resume_upload'' []) resume_file h1
                          = (Inr u, h2)"
    using handle_resume_upload_returns by blast
  obtain q h3 where q: "fill_additional_questions d mapped h2 = (Inr q, h3)"
    using fill_additional_questions_returns by blast
  obtain c h4 where c: "add_cover_letter d mapped cover_letter h3 = (Inr c, h4)"
    using add_cover_letter_returns by blast
  have nu: "\<not> u" using assms b u by simp
  have r: "fill_application_form d mapped profile_data resume_file cover_letter h = (Inr False, h4)"
    using b u q c nu by (simp add: fill_application_form_def prog_defs)
  show "fst (fill_application_form d mapped profile_data resume_file cover_letter h) = Inr False"
    using r by simp
  have "clicks h1 = clicks h"
    using quiet_fill_basic_fields[of d mapped profile_data] b by (auto simp: quiet_def dest: spec[of _ h])
  moreover have "clicks h2 = clicks h1"
    using quiet_handle_resume_upload[of d "dict_get mapped ''resume_upload'' []" resume_file] u
    by (auto simp: quiet_def dest: spec[of _ h1])
  moreover have "clicks h3 = clicks h2"
    using quiet_fill_additional_questions[of d mapped] q by (auto simp: quiet_def dest: spec[of _ h2])
  moreover have "clicks h4 = clicks h3"
    using quiet_add_cover_letter[of d mapped cover_letter] c by (auto simp: quiet_def dest: spec[of _ h3])
  ultimately show "clicks (snd (fill_application_form d mapped profile_data resume_file cover_letter h))
           = clicks h"
    using r by simp
qed

text \<open>The same for the Easy Apply path.\<close>

lemma quiet_case_option:
  "quiet a \<Longrightarrow> (\<And>x. quiet (f x)) \<Longrightarrow> quiet (case v of None \<Rightarrow> a | Some x \<Rightarrow> f x)"
  by (cases v) simp_all

lemma quiet_wait_until_present: "quiet (wait_until_present d by sel)"
  by (simp add: wait_until_present_def quiet_env_call)

lemma quiet_create_temp_resume_file: "quiet (create_temp_resume_file d)"
  unfolding create_temp_resume_file_def write_temp_resume_def
  by (intro quiet_intros quiet_env_call) simp

lemma quiet_find_file_input: "quiet (find_file_input d selectors)"
  by (induction selectors) (auto intro!: quiet_intros)

lemma quiet_handle_resume_upload_linkedin: "quiet (handle_resume_upload_linkedin d)"
  unfolding handle_resume_upload_linkedin_def
  by (intro quiet_intros quiet_case_option quiet_find_file_input quiet_create_temp_resume_file)

lemma quiet_should_fill_field: "quiet (should_fill_field d field)"
  unfolding should_fill_field_def
  by (intro quiet_intros quiet_name_or_id)

lemma quiet_fill_field_appropriately_linkedin: "quiet (fill_field_appropriately_linkedin d field)"
  unfolding fill_field_appropriately_linkedin_def Let_def
  by (intro quiet_intros quiet_name_or_id quiet_human_type)

lemma clicks_fill_question_fields:
  "clicks (snd (fill_question_fields d fs q h)) = clicks h"
proof (induction fs arbitrary: q h)
  case Nil
  show ?case by simp
next
  case (Cons field rest)
  obtain r1 h1 where s: "should_fill_field d field h = (r1, h1)"
    by (cases "should_fill_field d field h")
  obtain r2 h2 where f: "fill_field_appropriately_linkedin d field h1 = (r2, h2)"
    by (cases "fill_field_appropriately_linkedin d field h1")
  have c1: "clicks h1 = clicks h"
    using quiet_should_fill_field[of d field] s by (auto simp: quiet_def dest: spec[of _ h])
  have c2: "clicks h2 = clicks h1"
    using quiet_fill_field_appropriately_linkedin[of d field] f
    by (auto simp: quiet_def dest: spec[of _ h1])
  have c3: "clicks (snd (sleep h2)) = clicks h2"
    by (simp add: sleep_def clicks_def)
  show ?case
    using s f c1 c2 c3 Cons.IH
    by (auto split: sum.splits bool.splits)
qed

lemma clicks_fill_questions_loop:
  "clicks (snd (fill_questions_loop d selectors q h)) = clicks h"
proof (induction selectors arbitrary: q h)
  case Nil
  show ?case by simp
next
  case (Cons selector rest)
  obtain r1 h1 where s: "find_elements d CSS_SELECTOR selector h = (r1, h1)"
    by (cases "find_elements d CSS_SELECTOR selector h")
  have c1: "clicks h1 = clicks h"
    using quiet_ops(1)[of d CSS_SELECTOR selector] s by (auto simp: quiet_def dest: spec[of _ h])
  show ?case
  proof (cases r1)
    case (Inl e)
    with s c1 Cons.IH show ?thesis by simp
  next
    case (Inr found)
    obtain x q' h2 where f: "fill_question_fields d found q h1 = ((x, q'), h2)"
      by (metis surj_pair)
    have "clicks h2 = clicks h1"
      using clicks_fill_question_fields[of d found q h1] f by simp
    with s c1 Inr f Cons.IH show ?thesis by simp
  qed
qed

lemma quiet_fill_easy_apply_questions: "quiet (fill_easy_apply_questions d)"
proof -
  have "quiet (fill_questions_loop d question_selectors 0)"
    by (simp add: quiet_def clicks_fill_questions_loop)
  then show ?thesis
    unfolding fill_easy_apply_questions_def by (intro quiet_intros)
qed

lemma quiet_add_cover_letter_to_easy_apply: "quiet (add_cover_letter_to_easy_apply d cover_letter)"
  unfolding add_cover_letter_to_easy_apply_def
  by (intro quiet_intros quiet_try_cover_selectors)

lemma handle_resume_upload_linkedin_returns:
  "\<exists>b h'. handle_resume_upload_linkedin d h = (Inr b, h')"
  unfolding handle_resume_upload_linkedin_def by (rule try_except_returns)

lemma fill_easy_apply_questions_returns:
  "\<exists>b h'. fill_easy_apply_questions d h = (Inr b, h')"
  unfolding fill_easy_apply_questions_def by (rule try_except_returns)

lemma add_cover_letter_to_easy_apply_returns:
  "\<exists>b h'. add_cover_letter_to_easy_apply d cover_letter h = (Inr b, h')"
  unfolding add_cover_letter_to_easy_apply_def by (rule try_except_returns)

lemma easy_apply_without_upload:
  assumes "fst (handle_resume_upload_linkedin d
                  (h @ [Wait_presence CSS_SELECTOR ''.jobs-easy-apply-content''])) = Inr False"
  shows "fst (handle_linkedin_easy_apply d resume_content cover_letter h) = Inr False"
    and "clicks (snd (handle_linkedin_easy_apply d resume_content cover_letter h)) = clicks h"
proof -
  let ?h0 = "h @ [Wait_presence CSS_SELECTOR ''.jobs-easy-apply-content'']"
  have c0: "clicks ?h0 = clicks h" by (simp add: clicks_def)
  obtain u h1 where u: "handle_resume_upload_linkedin d ?h0 = (Inr u, h1)"
    using handle_resume_upload_linkedin_returns by blast
  obtain q h2 where q: "fill_easy_apply_questions d h1 = (Inr q, h2)"
    using fill_easy_apply_questions_returns by blast
  obtain c h3 where c: "add_cover_letter_to_easy_apply d cover_letter h2 = (Inr c, h3)"
    using add_cover_letter_to_easy_apply_returns by blast
  have nu: "\<not> u" using assms u by simp
  have c1: "clicks h1 = clicks ?h0"
    using quiet_handle_resume_upload_linkedin[of d] u by (auto simp: quiet_def dest: spec[of _ ?h0])
  have c2: "clicks h2 = clicks h1"
    using quiet_fill_easy_apply_questions[of d] q by (auto simp: quiet_def dest: spec[of _ h1])
  have c3: "clicks h3 = clicks h2"
    using quiet_add_cover_letter_to_easy_apply[of d cover_letter] c
    by (auto simp: quiet_def dest: spec[of _ h2])
  have r: "handle_linkedin_easy_apply d resume_content cover_letter h =
             (Inr False,
              case env_wait_until_present d h CSS_SELECTOR ''.jobs-easy-apply-content'' of
                Inl e \<Rightarrow> ?h0 | Inr el \<Rightarrow> h3)"
    using u q c nu
    by (cases "env_wait_until_present d h CSS_SELECTOR ''.jobs-easy-apply-content''")
       (simp_all add: handle_linkedin_easy_apply_def prog_defs wait_until_present_def)
  show "fst (handle_linkedin_easy_apply d resume_content cover_letter h) = Inr False"
    using r by simp
  show "clicks (snd (handle_linkedin_easy_apply d resume_content cover_letter h)) = clicks h"
    using r c0 c1 c2 c3 by (simp split: sum.splits)
qed

text \<open>
  C1.  \<open>handle_resume_upload\<close> reports failure exactly when no upload control was
  located or sending the file to the first one raised.  Whenever it reports failure,
  \<open>fill_application_form\<close> returns \<open>False\<close> and has clicked nothing: the
  submission step was not entered, whatever the page, the mapping, the profile and the
  texts are.  The Easy Apply handler is gated in the same way: when its upload step
  reports failure, \<open>handle_linkedin_easy_apply\<close> returns \<open>False\<close> and has clicked
  nothing.
\<close>

theorem submission_gated_by_upload:
  fixes d :: driver and mapped :: mapped_fields and profile_data :: profile
    and resume_file cover_letter resume_content :: string and h :: history
  defines "resume_fields \<equiv> dict_get mapped ''resume_upload'' []"
  defines "h1 \<equiv> snd (fill_basic_fields d mapped profile_data h)"
  defines "resume_uploaded \<equiv> fst (handle_resume_upload d resume_fields resume_file h1)"
  defines "outcome \<equiv> fill_application_form d mapped profile_data resume_file cover_letter h"
  defines "easy_apply_uploaded \<equiv>
             fst (handle_resume_upload_linkedin d
                    (h @ [Wait_presence CSS_SELECTOR ''.jobs-easy-apply-content'']))"
  defines "easy_apply_outcome \<equiv> handle_linkedin_easy_apply d resume_content cover_letter h"
  shows "(resume_uploaded = Inr False \<longleftrightarrow>
            resume_fields = []
            \<or> (\<exists>resume_field rest e. resume_fields = resume_field # rest
                   \<and> env_send_keys d h1 resume_field resume_file = Inl e))
       \<and> (resume_uploaded = Inr False \<longrightarrow>
            fst outcome = Inr False \<and> clicks (snd outcome) = clicks h)
       \<and> (easy_apply_uploaded = Inr False \<longrightarrow>
            fst easy_apply_outcome = Inr False \<and> clicks (snd easy_apply_outcome) = clicks h)"
  unfolding assms
proof (intro conjI impI)
  show "(fst (handle_resume_upload d (dict_get mapped ''resume_upload'' []) resume_file
               (snd (fill_basic_fields d mapped profile_data h))) = Inr False) =
        (dict_get mapped ''resume_upload'' [] = []
         \<or> (\<exists>resume_field rest e. dict_get mapped ''resume_upload'' [] = resume_field # rest
                \<and> env_send_keys d (snd (fill_basic_fields d mapped profile_data h))
                      resume_field resume_file = Inl e))"
    by (rule handle_resume_upload_False_iff)
next
  assume a: "fst (handle_resume_upload d (dict_get mapped ''resume_upload'' []) resume_file
               (snd (fill_basic_fields d mapped profile_data h))) = Inr False"
  show "fst (fill_application_form d mapped profile_data resume_file cover_letter h) = Inr False"
    by (rule fill_without_upload(1)[OF a])
  show "clicks (snd (fill_application_form d mapped profile_data resume_file cover_letter h))
          = clicks h"
    by (rule fill_without_upload(2)[OF a])
next
  assume a: "fst (handle_resume_upload_linkedin d
                    (h @ [Wait_presence CSS_SELECTOR ''.jobs-easy-apply-content''])) = Inr False"
  show "fst (handle_linkedin_easy_apply d resume_content cover_letter h) = Inr False"
    by (rule easy_apply_without_upload(1)[OF a])
  show "clicks (snd (handle_linkedin_easy_apply d resume_content cover_letter h)) = clicks h"
    by (rule easy_apply_without_upload(2)[OF a])
qed

text \<open>
  A page with a working submit button: without an upload control in the mapping, and with
  an upload control that raises, the form is not submitted.  On the same page the Easy
  Apply handler finds no file input and does not submit either.
\<close>

theorem submission_gated_by_upload_witness:
  "fst (fill_application_form (cooperative_page ''<p>Thank you</p>'')
          [(''submit_button'', [Element 3])] [] ''cv.pdf'' ''Dear Sir'' []) = Inr False
   \<and> clicks (snd (fill_application_form (cooperative_page ''<p>Thank you</p>'')
          [(''submit_button'', [Element 3])] [] ''cv.pdf'' ''Dear Sir'' [])) = []
   \<and> fst (fill_application_form upload_refusing_page
          [(''resume_upload'', [Element 2]), (''submit_button'', [Element 3])]
          [] ''cv.pdf'' ''Dear Sir'' []) = Inr False
   \<and> clicks (snd (fill_application_form upload_refusing_page
          [(''resume_upload'', [Element 2]), (''submit_button'', [Element 3])]
          [] ''cv.pdf'' ''Dear Sir'' [])) = []
   \<and> fst (handle_linkedin_easy_apply (cooperative_page ''<p>Thank you</p>'')
          ''Curriculum'' ''Dear Sir'' []) = Inr False
   \<and> clicks (snd (handle_linkedin_easy_apply (cooperative_page ''<p>Thank you</p>'')
          ''Curriculum'' ''Dear Sir'' [])) = []"
proof -
  let ?d1 = "cooperative_page ''<p>Thank you</p>''"
  let ?m1 = "[(''submit_button'', [Element 3])]"
  let ?d2 = "upload_refusing_page"
  let ?m2 = "[(''resume_upload'', [Element 2]), (''submit_button'', [Element 3])]"
  have e1: "dict_get ?m1 ''resume_upload'' [] = []"
    by (simp add: dict_get_def)
  have e2: "dict_get ?m2 ''resume_upload'' [] = Element 2 # []
              \<and> env_send_keys ?d2 (snd (fill_basic_fields ?d2 ?m2 [] [])) (Element 2) ''cv.pdf''
                    = Inl WebDriverException"
    by (simp add: dict_get_def upload_refusing_page_def)
  note t1 = submission_gated_by_upload[where d = ?d1 and mapped = ?m1 and resume_file = "''cv.pdf''"
              and profile_data = "[]" and h = "[]" and cover_letter = "''Dear Sir''"
              and resume_content = "''Curriculum''"]
  note t2 = submission_gated_by_upload[where d = ?d2 and mapped = ?m2 and resume_file = "''cv.pdf''"
              and profile_data = "[]" and h = "[]" and cover_letter = "''Dear Sir''"
              and resume_content = "''Curriculum''"]
  have u1: "fst (handle_resume_upload ?d1 (dict_get ?m1 ''resume_upload'' []) ''cv.pdf''
                  (snd (fill_basic_fields ?d1 ?m1 [] []))) = Inr False"
    using t1[THEN conjunct1] e1 by blast
  have u2: "fst (handle_resume_upload ?d2 (dict_get ?m2 ''resume_upload'' []) ''cv.pdf''
                  (snd (fill_basic_fields ?d2 ?m2 [] []))) = Inr False"
    using t2[THEN conjunct1] e2 by blast
  have u3: "fst (handle_resume_upload_linkedin ?d1
                  ([] @ [Wait_presence CSS_SELECTOR ''.jobs-easy-apply-content''])) = Inr False"
    by code_simp
  have c: "clicks [] = []" by (simp add: clicks_def)
  note w1 = t1[THEN conjunct2, THEN conjunct1, THEN mp, OF u1]
  note w2 = t2[THEN conjunct2, THEN conjunct1, THEN mp, OF u2]
  note w3 = t1[THEN conjunct2, THEN conjunct2, THEN mp, OF u3]
  show ?thesis
    using w1 w2 w3 c by simp
qed

subsection \<open>The component boundary\<close>

lemma submit_form_returns: "\<exists>b h'. submit_form d submit_fields h = (Inr b, h')"
  unfolding submit_form_def by (rule try_except_returns)

lemma check_submission_success_returns: "\<exists>b h'. check_submission_success d h = (Inr b, h')"
  unfolding check_submission_success_def by (rule try_except_returns)

lemma fill_application_form_returns:
  "\<exists>b h'. fill_application_form d mapped profile_data resume_file cover_letter h = (Inr b, h')"
  unfolding fill_application_form_def by (rule try_except_returns)

lemma map_form_fields_returns: "\<exists>m h'. map_form_fields d system_type h = (Inr m, h')"
  unfolding map_form_fields_def by (rule try_except_returns)

lemma detect_unreadable:
  assumes "(\<exists>e. env_current_url d h = Inl e) \<or> (\<exists>e. env_page_source d (h @ [Get_current_url]) = Inl e)"
  shows "fst (detect_application_system d h) = Inr ''unknown''"
  using assms
  by (cases "env_current_url d h")
     (auto simp: detect_application_system_def prog_defs current_url_def page_source_def)

lemma click_first_enabled_all_raise:
  assumes "\<forall>h' el. \<exists>e. env_click d h' el = Inl e"
  shows "fst (click_first_enabled d submit_fields h) = Inr False"
proof (induction submit_fields arbitrary: h)
  case Nil
  show ?case by (simp add: returnE_def)
next
  case (Cons s rest)
  obtain e where c: "env_click d (h @ [Is_enabled s]) s = Inl e"
    using assms by blast
  show ?case
  proof (cases "env_is_enabled d h s")
    case (Inl x)
    then show ?thesis
      using Cons.IH[of "h @ [Is_enabled s]"]
      by (simp add: prog_defs is_enabled_def)
  next
    case (Inr en)
    then show ?thesis
      using Cons.IH[of "h @ [Is_enabled s]"] Cons.IH[of "h @ [Is_enabled s, Click s]"] c
      by (cases en) (simp_all add: prog_defs is_enabled_def click_def)
  qed
qed

lemma submit_form_all_raise:
  assumes "\<forall>h' el. \<exists>e. env_click d h' el = Inl e"
  shows "fst (submit_form d submit_fields h) = Inr False"
proof (cases "submit_fields = []")
  case True
  then show ?thesis by (simp add: submit_form_def prog_defs)
next
  case False
  obtain r h' where r: "click_first_enabled d submit_fields h = (r, h')"
    by (cases "click_first_enabled d submit_fields h")
  with click_first_enabled_all_raise[OF assms, of submit_fields h] have "r = Inr False" by simp
  with r False show ?thesis by (simp add: submit_form_def prog_defs)
qed

text \<open>
  C8.  Exceptions are the values \<open>Inl e\<close>.  In every environment and for every
  input, vendor detection, field mapping, form fill, submission and outcome
  classification return a value (\<open>Inr\<close>), never an exception.  When the address or
  the source cannot be read, detection answers \<open>unknown\<close>; when every upload raises,
  the fill answers \<open>False\<close>; when every click raises, submission answers
  \<open>False\<close>; when the source cannot be read, classification answers \<open>False\<close>.
\<close>

theorem no_exception_escapes:
  "(\<exists>tag h'. detect_application_system d h = (Inr tag, h'))
   \<and> (\<exists>fields h'. map_form_fields d system_type h = (Inr fields, h'))
   \<and> (\<exists>ok h'. fill_application_form d mapped profile_data resume_file cover_letter h = (Inr ok, h'))
   \<and> (\<exists>ok h'. submit_form d submit_fields h = (Inr ok, h'))
   \<and> (\<exists>ok h'. check_submission_success d h = (Inr ok, h'))
   \<and> ((\<exists>e. env_current_url d h = Inl e) \<or> (\<exists>e. env_page_source d (h @ [Get_current_url]) = Inl e)
        \<longrightarrow> fst (detect_application_system d h) = Inr ''unknown'')
   \<and> ((\<forall>h' el s. \<exists>e. env_send_keys d h' el s = Inl e)
        \<longrightarrow> fst (fill_application_form d mapped profile_data resume_file cover_letter h) = Inr False)
   \<and> ((\<forall>h' el. \<exists>e. env_click d h' el = Inl e)
        \<longrightarrow> fst (submit_form d submit_fields h) = Inr False)
   \<and> ((\<exists>e. env_page_source d h = Inl e) \<longrightarrow> fst (check_submission_success d h) = Inr False)"
proof (intro conjI impI)
  show "\<exists>tag h'. detect_application_system d h = (Inr tag, h')"
    using detect_application_system_tags[of d h] by blast
  show "\<exists>fields h'. map_form_fields d system_type h = (Inr fields, h')"
    by (rule map_form_fields_returns)
  show "\<exists>ok h'. fill_application_form d mapped profile_data resume_file cover_letter h = (Inr ok, h')"
    by (rule fill_application_form_returns)
  show "\<exists>ok h'. submit_form d submit_fields h = (Inr ok, h')"
    by (rule submit_form_returns)
  show "\<exists>ok h'. check_submission_success d h = (Inr ok, h')"
    by (rule check_submission_success_returns)
next
  assume "(\<exists>e. env_current_url d h = Inl e) \<or> (\<exists>e. env_page_source d (h @ [Get_current_url]) = Inl e)"
  then show "fst (detect_application_system d h) = Inr ''unknown''"
    by (rule detect_unreadable)
next
  assume a: "\<forall>h' el s. \<exists>e. env_send_keys d h' el s = Inl e"
  have "fst (handle_resume_upload d (dict_get mapped ''resume_upload'' []) resume_file
               (snd (fill_basic_fields d mapped profile_data h))) = Inr False"
    unfolding handle_resume_upload_False_iff
    using a by (cases "dict_get mapped ''resume_upload'' []") auto
  then show "fst (fill_application_form d mapped profile_data resume_file cover_letter h) = Inr False"
    by (rule fill_without_upload(1))
next
  assume "\<forall>h' el. \<exists>e. env_click d h' el = Inl e"
  then show "fst (submit_form d submit_fields h) = Inr False"
    by (rule submit_form_all_raise)
next
  assume "\<exists>e. env_page_source d h = Inl e"
  then show "fst (check_submission_success d h) = Inr False"
    by (auto simp: check_submission_success_def prog_defs page_source_def)
qed

text \<open>The browser in which every call raises.\<close>

theorem no_exception_escapes_witness:
  "fst (detect_application_system failing_driver []) = Inr ''unknown''
   \<and> fst (fill_application_form failing_driver
            [(''resume_upload'', [Element 2]), (''submit_button'', [Element 3])]
            [] ''cv.pdf'' ''Dear Sir'' []) = Inr False
   \<and> fst (submit_form failing_driver [Element 3] []) = Inr False
   \<and> fst (check_submission_success failing_driver []) = Inr False"
proof -
  note t = no_exception_escapes[of failing_driver "[]" "''unknown''"
             "[(''resume_upload'', [Element 2]), (''submit_button'', [Element 3])]"
             "[]" "''cv.pdf''" "''Dear Sir''" "[Element 3]"]
  have a: "(\<exists>e. env_current_url failing_driver [] = Inl e)
           \<or> (\<exists>e. env_page_source failing_driver ([] @ [Get_current_url]) = Inl e)"
    by (simp add: failing_driver_def)
  have b: "\<forall>h' el s. \<exists>e. env_send_keys failing_driver h' el s = Inl e"
    by (simp add: failing_driver_def)
  have c: "\<forall>h' el. \<exists>e. env_click failing_driver h' el = Inl e"
    by (simp add: failing_driver_def)
  have d: "\<exists>e. env_page_source failing_driver [] = Inl e"
    by (simp add: failing_driver_def)
  note t5 = t[THEN conjunct2, THEN conjunct2, THEN conjunct2, THEN conjunct2, THEN conjunct2]
  show ?thesis
    by (intro conjI t5[THEN conjunct1, THEN mp, OF a]
          t5[THEN conjunct2, THEN conjunct1, THEN mp, OF b]
          t5[THEN conjunct2, THEN conjunct2, THEN conjunct1, THEN mp, OF c]
          t5[THEN conjunct2, THEN conjunct2, THEN conjunct2, THEN mp, OF d])
qed

end
